theory Spec2Isabelle
  imports Main "HOL-Library.Sublist" "HOL-Library.Multiset"
begin

section \<open>Cross-store conversation search: the search route\<close>

text \<open>
  A shallow embedding of \<^verbatim>\<open>src/app/api/search/route.ts\<close>: the text extractor, the project
  resolver, the per-source matchers and the \<^verbatim>\<open>GET\<close> handler with its stores.

  Conventions of the model.
  \<^item> A JavaScript string is the list of its UTF-16 code units (\<open>jsstring\<close>); \<open>lit\<close> turns a
    literal of the source into one. \<^verbatim>\<open>includes\<close>, \<^verbatim>\<open>indexOf\<close>, \<^verbatim>\<open>slice\<close>, \<^verbatim>\<open>replace\<close>,
    \<^verbatim>\<open>startsWith\<close>, \<^verbatim>\<open>split\<close> and \<^verbatim>\<open>length\<close> work on code units, as in the language; \<^verbatim>\<open>trim\<close> removes
    the white space and line terminators of the language. \<^verbatim>\<open>toLowerCase\<close> is a parameter
    (\<open>lower\<close>, of type \<open>lowercase\<close>): nothing is assumed of it, so every theorem holds for the
    case mapping of the language, which may change the length of a string.
  \<^item> A JavaScript number is an \<^typ>\<open>int\<close> (time stamps are whole milliseconds); \<^verbatim>\<open>NaN\<close>, which
    only \<^verbatim>\<open>Date.getTime\<close> produces here, is \<open>None\<close>.
  \<^item> Bubble payloads, parsed rich-text documents, the files of a conversation and the
    \<^verbatim>\<open>workspace.json\<close> of a workspace are untyped values (\<open>jsval\<close>), read with the run-time
    checks of the source; a property read on \<^verbatim>\<open>null\<close> or \<^verbatim>\<open>undefined\<close> and a method call on a
    value without that method are the error \<open>TypeError\<close>.
  \<^item> The three lookup tables of the handler are plain objects: a key is found when it is an
    own property or a member of \<^verbatim>\<open>Object.prototype\<close>, and an assignment to \<^verbatim>\<open>__proto__\<close> goes to the
    setter of the prototype.
  \<^item> Conversation documents (composer data, chat tabs, legacy composers) are records with the
    fields the source reads, each optional where the source tests it.
  \<^item> \<^verbatim>\<open>JSON.parse\<close> on the text of a bubble row, a context row, a rich text or a project
    layout is a parameter of type \<open>parser\<close> (\<open>None\<close> when it throws). A conversation row and
    a legacy document are held as the outcome of reading them: \<open>Unparsable\<close> when
    \<^verbatim>\<open>JSON.parse\<close> throws, the record otherwise.
  \<^item> \<^verbatim>\<open>Date\<close> parsing is a parameter of type \<open>dateparser\<close>; \<^verbatim>\<open>new Date().toISOString()\<close> is
    the field \<open>w_now\<close> of the installation.
  \<^item> A store is given by what its calls return or throw; the handle events \<open>Opened\<close> and
    \<open>Closed\<close> are recorded in the order in which the handler performs them.
\<close>

subsection \<open>Strings\<close>

type_synonym codeunit = int

type_synonym jsstring = "codeunit list"

definition unit :: "char \<Rightarrow> codeunit" where
  "unit c = of_char c"

definition lit :: "string \<Rightarrow> jsstring" where
  "lit s = map unit s"

type_synonym lowercase = "jsstring \<Rightarrow> jsstring"

text \<open>
  The code units \<^verbatim>\<open>trim\<close> removes: the white space of the language (tab, vertical tab, form
  feed, the byte order mark \<open>U+FEFF\<close> and the space separators \<open>U+0020\<close>, \<open>U+00A0\<close>, \<open>U+1680\<close>,
  \<open>U+2000\<close> to \<open>U+200A\<close>, \<open>U+202F\<close>, \<open>U+205F\<close>, \<open>U+3000\<close>) and its line terminators (line feed,
  carriage return, \<open>U+2028\<close>, \<open>U+2029\<close>).
\<close>

definition isWhiteSpace :: "codeunit \<Rightarrow> bool" where
  "isWhiteSpace u =
     (u \<in> set [9, 10, 11, 12, 13, 32, 160, 5760, 8232, 8233, 8239, 8287, 12288, 65279]
      \<or> (8192 \<le> u \<and> u \<le> 8202))"

definition trim :: "jsstring \<Rightarrow> jsstring" where
  "trim s = rev (dropWhile isWhiteSpace (rev (dropWhile isWhiteSpace s)))"

definition startsWith :: "jsstring \<Rightarrow> jsstring \<Rightarrow> bool" where
  "startsWith s p = prefix p s"

text \<open>\<^verbatim>\<open>s.includes(q)\<close>: \<open>q\<close> occurs in \<open>s\<close> at some position.\<close>

fun str_includes :: "jsstring \<Rightarrow> jsstring \<Rightarrow> bool" where
  "str_includes [] q = (q = [])"
| "str_includes (c # cs) q = (startsWith (c # cs) q \<or> str_includes cs q)"

text \<open>\<^verbatim>\<open>s.indexOf(q)\<close>, searching from position \<open>k\<close> of the whole text: the first position where
  \<open>q\<close> occurs, or \<open>-1\<close>.\<close>

fun indexOf_from :: "nat \<Rightarrow> jsstring \<Rightarrow> jsstring \<Rightarrow> int" where
  "indexOf_from k [] q = (if q = [] then int k else - 1)"
| "indexOf_from k (c # cs) q =
     (if startsWith (c # cs) q then int k else indexOf_from (Suc k) cs q)"

definition indexOf :: "jsstring \<Rightarrow> jsstring \<Rightarrow> int" where
  "indexOf s q = indexOf_from 0 s q"

text \<open>\<^verbatim>\<open>s.slice(a, b)\<close> with the clamping of the language: a negative index counts from the end.\<close>

definition slice :: "jsstring \<Rightarrow> int \<Rightarrow> int \<Rightarrow> jsstring" where
  "slice s a b =
     (let len = int (length s);
          from = (if a < 0 then max (len + a) 0 else min a len);
          to = (if b < 0 then max (len + b) 0 else min b len)
      in take (nat (max (to - from) 0)) (drop (nat from) s))"

text \<open>\<^verbatim>\<open>s.replace(pat, '')\<close> with a string pattern: the first occurrence is removed.\<close>

fun remove_first :: "jsstring \<Rightarrow> jsstring \<Rightarrow> jsstring" where
  "remove_first pat [] = []"
| "remove_first pat (c # cs) =
     (if startsWith (c # cs) pat then drop (length pat) (c # cs) else c # remove_first pat cs)"

text \<open>\<^verbatim>\<open>s.split(sep)\<close> for a separator of one code unit; the result is never empty.\<close>

fun split_on :: "codeunit \<Rightarrow> jsstring \<Rightarrow> jsstring list" where
  "split_on sep [] = [[]]"
| "split_on sep (c # cs) =
     (if c = sep then [] # split_on sep cs
      else (case split_on sep cs of
              p # ps \<Rightarrow> (c # p) # ps
            | [] \<Rightarrow> [[c]]))"

text \<open>The pieces a \<^verbatim>\<open>for ... of\<close> loop over a string runs through: its code points, a
  surrogate pair counting as one.\<close>

fun codePoints :: "jsstring \<Rightarrow> jsstring list" where
  "codePoints [] = []"
| "codePoints [u] = [[u]]"
| "codePoints (u # v # rest) =
     (if 55296 \<le> u \<and> u \<le> 56319 \<and> 56320 \<le> v \<and> v \<le> 57343 then [u, v] # codePoints rest
      else [u] # codePoints (v # rest))"

subsection \<open>Untyped values\<close>

datatype jsval =
    JUndefined
  | JNull
  | JBool bool
  | JNum int
  | JStr jsstring
  | JArr "jsval list"
  | JObj "(jsstring \<times> jsval) list"

datatype js_error = TypeError | SyntaxError

type_synonym parser = "jsstring \<Rightarrow> jsval option"

fun truthy :: "jsval \<Rightarrow> bool" where
  "truthy JUndefined = False"
| "truthy JNull = False"
| "truthy (JBool b) = b"
| "truthy (JNum n) = (n \<noteq> 0)"
| "truthy (JStr s) = (s \<noteq> [])"
| "truthy (JArr xs) = True"
| "truthy (JObj kvs) = True"

text \<open>
  A property read \<^verbatim>\<open>v.k\<close>, for the keys the source reads by name (\<^verbatim>\<open>text\<close>, \<^verbatim>\<open>richText\<close>, \<^verbatim>\<open>root\<close>,
  \<^verbatim>\<open>children\<close>, \<^verbatim>\<open>type\<close>, \<^verbatim>\<open>relevantFiles\<close>, \<^verbatim>\<open>context\<close>, \<^verbatim>\<open>fileSelections\<close>, \<^verbatim>\<open>uri\<close>, \<^verbatim>\<open>path\<close>, \<^verbatim>\<open>folder\<close>,
  \<^verbatim>\<open>projectLayouts\<close>, \<^verbatim>\<open>rootPath\<close>, \<^verbatim>\<open>bubbleId\<close>): none of them is a property of a string, an
  array, a number, a boolean or a function. An object lists its own properties, each key
  once.
\<close>

fun get_prop :: "jsval \<Rightarrow> jsstring \<Rightarrow> js_error + jsval" where
  "get_prop JUndefined k = Inl TypeError"
| "get_prop JNull k = Inl TypeError"
| "get_prop (JObj kvs) k = Inr (case map_of kvs k of None \<Rightarrow> JUndefined | Some v \<Rightarrow> v)"
| "get_prop v k = Inr JUndefined"

text \<open>The values a \<^verbatim>\<open>for ... of\<close> loop runs over: the elements of an array, the code points of
  a string; anything else is not iterable.\<close>

fun iterate :: "jsval \<Rightarrow> js_error + jsval list" where
  "iterate (JArr xs) = Inr xs"
| "iterate (JStr s) = Inr (map JStr (codePoints s))"
| "iterate v = Inl TypeError"

fun show_nat :: "nat \<Rightarrow> jsstring" where
  "show_nat n =
     (if n < 10 then [48 + int n]
      else show_nat (n div 10) @ [48 + int (n mod 10)])"

definition show_int :: "int \<Rightarrow> jsstring" where
  "show_int i = (if i < 0 then unit CHR ''-'' # show_nat (nat (- i)) else show_nat (nat i))"

fun join_comma :: "jsstring list \<Rightarrow> jsstring" where
  "join_comma [] = []"
| "join_comma [s] = s"
| "join_comma (s # t # ss) = s @ unit CHR '','' # join_comma (t # ss)"

text \<open>The string a value turns into when it is appended to a string, used as a property key
  or handed to \<^verbatim>\<open>JSON.parse\<close> (numbers below \<open>10\<^sup>2\<^sup>1\<close> in size).\<close>

fun ToString :: "jsval \<Rightarrow> jsstring" where
  "ToString JUndefined = lit ''undefined''"
| "ToString JNull = lit ''null''"
| "ToString (JBool b) = (if b then lit ''true'' else lit ''false'')"
| "ToString (JNum n) = show_int n"
| "ToString (JStr s) = s"
| "ToString (JArr xs) =
     join_comma (map (\<lambda>x. if x = JUndefined \<or> x = JNull then [] else ToString x) xs)"
| "ToString (JObj kvs) = lit ''[object Object]''"

subsection \<open>Text extraction\<close>

lemma size_map_of:
  "map_of kvs k = Some v \<Longrightarrow> size v < Suc (size_list (size_prod (\<lambda>_. 0) size) kvs)"
  by (induction kvs) (auto split: if_splits)

lemma get_prop_size: "get_prop v k = Inr w \<Longrightarrow> size w \<le> size v"
  by (cases v) (auto split: option.splits dest: size_map_of)

lemma get_prop_arr_size: "get_prop v k = Inr (JArr ys) \<Longrightarrow> size_list size ys < size v"
  using get_prop_size[of v k "JArr ys"] by simp

text \<open>
  The loop of \<^verbatim>\<open>extractTextFromRichText\<close> over the children it was given: a child of type
  \<^verbatim>\<open>text\<close> with a truthy text adds that text; any other child whose \<^verbatim>\<open>children\<close> is an array
  adds the text of that array. Reading a property of a \<^verbatim>\<open>null\<close> child throws, and what was
  gathered is lost with the exception.
\<close>

function rich_loop :: "jsval list \<Rightarrow> js_error + jsstring" where
  "rich_loop [] = Inr []"
| "rich_loop (child # rest) =
     (case get_prop child (lit ''type'') of
        Inl e \<Rightarrow> Inl e
      | Inr ty \<Rightarrow>
          (case get_prop child (lit ''text'') of
             Inl e \<Rightarrow> Inl e
           | Inr tx \<Rightarrow>
               if ty = JStr (lit ''text'') \<and> truthy tx then
                 (case rich_loop rest of
                    Inl e \<Rightarrow> Inl e
                  | Inr r \<Rightarrow> Inr (ToString tx @ r))
               else
                 (case get_prop child (lit ''children'') of
                    Inl e \<Rightarrow> Inl e
                  | Inr (JArr ys) \<Rightarrow>
                      (case rich_loop ys of
                         Inl e \<Rightarrow> Inl e
                       | Inr t \<Rightarrow>
                           (case rich_loop rest of
                              Inl e \<Rightarrow> Inl e
                            | Inr r \<Rightarrow> Inr (t @ r)))
                  | Inr other \<Rightarrow> rich_loop rest)))"
  by pat_completeness auto
termination rich_loop
  by (relation "measure (size_list size)") (auto dest: get_prop_arr_size)

definition extractTextFromRichText :: "jsval \<Rightarrow> js_error + jsstring" where
  "extractTextFromRichText children =
     (case iterate children of
        Inl e \<Rightarrow> Inl e
      | Inr cs \<Rightarrow> rich_loop cs)"

text \<open>
  The body of the \<^verbatim>\<open>try\<close> block of \<^verbatim>\<open>extractTextFromBubble\<close>: the new value of \<^verbatim>\<open>text\<close>, which
  was empty before, or the exception.
\<close>

definition richText_try :: "parser \<Rightarrow> jsval \<Rightarrow> js_error + jsstring" where
  "richText_try parse richText =
     (case parse (ToString richText) of
        None \<Rightarrow> Inl SyntaxError
      | Some richTextData \<Rightarrow>
          (case get_prop richTextData (lit ''root'') of
             Inl e \<Rightarrow> Inl e
           | Inr root \<Rightarrow>
               if truthy root then
                 (case get_prop root (lit ''children'') of
                    Inl e \<Rightarrow> Inl e
                  | Inr children \<Rightarrow>
                      if truthy children then extractTextFromRichText children else Inr [])
               else Inr []))"

text \<open>
  \<^verbatim>\<open>extractTextFromBubble\<close>. The test \<^verbatim>\<open>bubble.text && bubble.text.trim()\<close> stands outside the
  \<^verbatim>\<open>try\<close>: on a truthy text that is not a string the call of \<^verbatim>\<open>trim\<close> throws.
\<close>

definition extractTextFromBubble :: "parser \<Rightarrow> jsval \<Rightarrow> js_error + jsstring" where
  "extractTextFromBubble parse bubble =
     (case get_prop bubble (lit ''text'') of
        Inl e \<Rightarrow> Inl e
      | Inr t \<Rightarrow>
          (case (if truthy t
                 then (case t of
                         JStr s \<Rightarrow> Inr (if trim s \<noteq> [] then s else [])
                       | other \<Rightarrow> Inl TypeError)
                 else Inr []) of
             Inl e \<Rightarrow> Inl e
           | Inr text1 \<Rightarrow>
               (case get_prop bubble (lit ''richText'') of
                  Inl e \<Rightarrow> Inl e
                | Inr richText \<Rightarrow>
                    if text1 = [] \<and> truthy richText then
                      (case richText_try parse richText of
                         Inl e \<Rightarrow> Inr []
                       | Inr text2 \<Rightarrow> Inr text2)
                    else Inr text1)))"

subsection \<open>Rich documents as the specification sees them\<close>

text \<open>
  A rich document is a tree of leaves carrying text and containers carrying children (and a
  node type of their own). \<open>leaf_text\<close> is the text of the leaves from left to right;
  \<open>encode\<close> is the stored form of a node.
\<close>

datatype richdoc = Leaf jsstring | Container jsstring "richdoc list"

fun leaf_text :: "richdoc \<Rightarrow> jsstring" where
  "leaf_text (Leaf s) = s"
| "leaf_text (Container ty ds) = concat (map leaf_text ds)"

fun encode :: "richdoc \<Rightarrow> jsval" where
  "encode (Leaf s) = JObj [(lit ''type'', JStr (lit ''text'')), (lit ''text'', JStr s)]"
| "encode (Container ty ds) =
     JObj [(lit ''type'', JStr ty), (lit ''children'', JArr (map encode ds))]"

definition encode_document :: "richdoc list \<Rightarrow> jsval" where
  "encode_document ds =
     JObj [(lit ''root'', JObj [(lit ''children'', JArr (map encode ds))])]"

subsection \<open>Plain objects as lookup tables\<close>

text \<open>
  The handler keeps three tables in plain objects (\<^verbatim>\<open>{}\<close>): the index of folder names, the
  project layouts and the bubbles. A read \<^verbatim>\<open>obj[k]\<close> finds an own property or, when there is
  none, a member of \<^verbatim>\<open>Object.prototype\<close>: a function, or for \<^verbatim>\<open>__proto__\<close> the prototype itself,
  truthy in either case.
\<close>

definition protoNames :: "jsstring list" where
  "protoNames =
     map lit [''constructor'', ''__proto__'', ''__defineGetter__'', ''__defineSetter__'',
              ''__lookupGetter__'', ''__lookupSetter__'', ''hasOwnProperty'', ''isPrototypeOf'',
              ''propertyIsEnumerable'', ''toLocaleString'', ''toString'', ''valueOf'']"

datatype 'a property = Missing | Own 'a | Inherited

definition property :: "(jsstring \<rightharpoonup> 'a) \<Rightarrow> jsstring \<Rightarrow> 'a property" where
  "property obj k =
     (case obj k of
        Some v \<Rightarrow> Own v
      | None \<Rightarrow> if k \<in> set protoNames then Inherited else Missing)"

text \<open>
  The bubble table holds objects, so an assignment to its key \<^verbatim>\<open>__proto__\<close> replaces its
  prototype: \<open>bm_proto\<close> is that object (\<open>None\<close> for \<^verbatim>\<open>Object.prototype\<close>), \<open>bm_own\<close> are the own
  properties.
\<close>

record bubbleMap =
  bm_own :: "jsstring \<rightharpoonup> jsval"
  bm_proto :: "jsval option"

definition emptyBubbleMap :: bubbleMap where
  "emptyBubbleMap = \<lparr> bm_own = Map.empty, bm_proto = None \<rparr>"

text \<open>The members of \<^verbatim>\<open>Array.prototype\<close> (functions, all of them).\<close>

definition arrayProtoNames :: "jsstring list" where
  "arrayProtoNames =
     map lit [''constructor'', ''at'', ''concat'', ''copyWithin'', ''fill'', ''find'', ''findIndex'',
              ''findLast'', ''findLastIndex'', ''lastIndexOf'', ''pop'', ''push'', ''reverse'',
              ''shift'', ''unshift'', ''slice'', ''sort'', ''splice'', ''includes'', ''indexOf'',
              ''join'', ''keys'', ''entries'', ''values'', ''forEach'', ''filter'', ''flat'',
              ''flatMap'', ''map'', ''every'', ''some'', ''reduce'', ''reduceRight'',
              ''toLocaleString'', ''toString'', ''toReversed'', ''toSorted'', ''toSpliced'',
              ''with'']"

text \<open>
  What a prototype that was put there by a bubble row hands down under the key \<open>k\<close>: a
  property of the object; an element, the length or a method of the array. A function is
  rendered as the empty object: like it, it is truthy and has none of the properties the
  source reads.
\<close>

fun inheritedFrom :: "jsval \<Rightarrow> jsstring \<Rightarrow> jsval option" where
  "inheritedFrom (JObj kvs) k = map_of kvs k"
| "inheritedFrom (JArr xs) k =
     (if k = lit ''length'' then Some (JNum (int (length xs)))
      else (case List.find (\<lambda>i. show_nat i = k) [0..<length xs] of
              Some i \<Rightarrow> Some (xs ! i)
            | None \<Rightarrow> if k \<in> set arrayProtoNames then Some (JObj []) else None))"
| "inheritedFrom v k = None"

text \<open>The member of \<^verbatim>\<open>Object.prototype\<close> at the end of the chain; its \<^verbatim>\<open>__proto__\<close> is a getter that
  gives the prototype of the table.\<close>

definition objectProtoMember :: "jsval option \<Rightarrow> jsstring \<Rightarrow> jsval" where
  "objectProtoMember proto k =
     (if k = lit ''__proto__'' then (case proto of None \<Rightarrow> JObj [] | Some b \<Rightarrow> b)
      else if k \<in> set protoNames then JObj []
      else JUndefined)"

text \<open>\<^verbatim>\<open>bubbleMap[bubbleId]\<close>; \<open>JUndefined\<close> when nothing is found.\<close>

definition bubbleAt :: "bubbleMap \<Rightarrow> jsstring \<Rightarrow> jsval" where
  "bubbleAt bubbleMap k =
     (case bm_own bubbleMap k of
        Some v \<Rightarrow> v
      | None \<Rightarrow>
          (case bm_proto bubbleMap of
             None \<Rightarrow> objectProtoMember None k
           | Some b \<Rightarrow>
               (case inheritedFrom b k of
                  Some v \<Rightarrow> v
                | None \<Rightarrow> objectProtoMember (Some b) k)))"

text \<open>
  \<^verbatim>\<open>bubbleMap[bubbleId] = bubble\<close> for a bubble that is an object or an array. The key
  \<^verbatim>\<open>__proto__\<close> reaches the setter of \<^verbatim>\<open>Object.prototype\<close>, which replaces the prototype, unless an
  own property or a property of the present prototype has that name.
\<close>

definition putBubble :: "bubbleMap \<Rightarrow> jsstring \<Rightarrow> jsval \<Rightarrow> bubbleMap" where
  "putBubble bubbleMap k bubble =
     (if k = lit ''__proto__'' \<and> bm_own bubbleMap k = None
         \<and> (case bm_proto bubbleMap of None \<Rightarrow> True | Some b \<Rightarrow> inheritedFrom b k = None)
      then bubbleMap\<lparr> bm_proto := Some bubble \<rparr>
      else bubbleMap\<lparr> bm_own := (bm_own bubbleMap)(k \<mapsto> bubble) \<rparr>)"

subsection \<open>Workspaces and the project resolver\<close>

text \<open>A workspace entry as the handler reads it past line 180 (its \<^verbatim>\<open>workspaceJsonPath\<close> is
  never read again and is left out).\<close>

record workspaceEntry =
  we_name :: jsstring
  we_folder :: jsstring

fun getProjectFromFilePath :: "jsstring \<Rightarrow> workspaceEntry list \<Rightarrow> jsstring option" where
  "getProjectFromFilePath filePath [] = None"
| "getProjectFromFilePath filePath (entry # rest) =
     (if we_folder entry \<noteq> []
         \<and> startsWith (remove_first (lit ''file://'') filePath)
                      (remove_first (lit ''file://'') (we_folder entry))
      then Some (we_name entry)
      else getProjectFromFilePath filePath rest)"

text \<open>The test \<^verbatim>\<open>if (projectId) return projectId\<close>: an empty name does not count as found.\<close>

definition found :: "jsstring option \<Rightarrow> bool" where
  "found projectId = (case projectId of None \<Rightarrow> False | Some p \<Rightarrow> p \<noteq> [])"

datatype timestamp = TNum int | TStr jsstring

text \<open>
  The conversation document of the unified store, with the fields the resolver and the
  matcher read: the name, the newly created files and the conversation headers (arrays of
  any values), the keys of \<^verbatim>\<open>codeBlockData\<close> in the order of \<^verbatim>\<open>Object.keys\<close>, and the two time
  stamps.
\<close>

record composerData =
  cd_name :: "jsstring option"
  cd_newlyCreatedFiles :: "jsval list option"
  cd_codeBlockData :: "jsstring list option"
  cd_fullConversationHeadersOnly :: "jsval list option"
  cd_lastUpdatedAt :: "timestamp option"
  cd_createdAt :: "timestamp option"

text \<open>What the resolver returns: the name of a workspace, or the member of
  \<^verbatim>\<open>Object.prototype\<close> that the index of folder names handed down.\<close>

datatype projectId = Workspace jsstring | PrototypeMember

text \<open>First stage (lines 76 to 82): the root paths recorded for the conversation, each
  looked up in the index of folder names as it was recorded.\<close>

fun projectFromLayouts :: "(jsstring \<rightharpoonup> jsstring) \<Rightarrow> jsstring list \<Rightarrow> projectId option" where
  "projectFromLayouts projectNameToWorkspaceId [] = None"
| "projectFromLayouts projectNameToWorkspaceId (projectName # rest) =
     (case property projectNameToWorkspaceId projectName of
        Own workspaceId \<Rightarrow>
          if workspaceId \<noteq> [] then Some (Workspace workspaceId)
          else projectFromLayouts projectNameToWorkspaceId rest
      | Inherited \<Rightarrow> Some PrototypeMember
      | Missing \<Rightarrow> projectFromLayouts projectNameToWorkspaceId rest)"

text \<open>\<^verbatim>\<open>projectLayoutsMap[composerId] || []\<close> as the loop of line 77 runs over it: a member of
  \<^verbatim>\<open>Object.prototype\<close> is not iterable.\<close>

definition layoutsOf :: "(jsstring \<rightharpoonup> jsstring list) \<Rightarrow> jsstring \<Rightarrow> js_error + jsstring list" where
  "layoutsOf projectLayoutsMap composerId =
     (case property projectLayoutsMap composerId of
        Own projectLayouts \<Rightarrow> Inr projectLayouts
      | Inherited \<Rightarrow> Inl TypeError
      | Missing \<Rightarrow> Inr [])"

text \<open>Second stage (lines 85 to 92). \<open>newFilePath\<close> is the value of \<^verbatim>\<open>file.uri && file.uri.path\<close>:
  a file that is \<^verbatim>\<open>null\<close> throws; a truthy path that is not a string throws in
  \<^verbatim>\<open>getProjectFromFilePath\<close>, which calls \<^verbatim>\<open>replace\<close> on it.\<close>

definition newFilePath :: "jsval \<Rightarrow> js_error + jsval" where
  "newFilePath file =
     (case get_prop file (lit ''uri'') of
        Inl e \<Rightarrow> Inl e
      | Inr uri \<Rightarrow> if truthy uri then get_prop uri (lit ''path'') else Inr uri)"

fun projectFromNewFiles :: "workspaceEntry list \<Rightarrow> jsval list \<Rightarrow> js_error + jsstring option" where
  "projectFromNewFiles workspaceEntries [] = Inr None"
| "projectFromNewFiles workspaceEntries (file # rest) =
     (case newFilePath file of
        Inl e \<Rightarrow> Inl e
      | Inr filePath \<Rightarrow>
          if truthy filePath then
            (case filePath of
               JStr p \<Rightarrow>
                 if found (getProjectFromFilePath p workspaceEntries)
                 then Inr (getProjectFromFilePath p workspaceEntries)
                 else projectFromNewFiles workspaceEntries rest
             | other \<Rightarrow> Inl TypeError)
          else projectFromNewFiles workspaceEntries rest)"

text \<open>Third stage (lines 95 to 100): the keys of the code block data.\<close>

fun projectFromPaths :: "workspaceEntry list \<Rightarrow> jsstring list \<Rightarrow> jsstring option" where
  "projectFromPaths workspaceEntries [] = None"
| "projectFromPaths workspaceEntries (filePath # rest) =
     (if found (getProjectFromFilePath filePath workspaceEntries)
      then getProjectFromFilePath filePath workspaceEntries
      else projectFromPaths workspaceEntries rest)"

text \<open>
  Fourth stage (lines 103 to 127), on one bubble. A truthy entry of \<^verbatim>\<open>relevantFiles\<close> is handed
  to \<^verbatim>\<open>getProjectFromFilePath\<close>, whose \<^verbatim>\<open>replace\<close> throws on anything but a string; so does a
  truthy \<^verbatim>\<open>uri.path\<close> of a file selection.
\<close>

fun projectFromRelevantFiles :: "workspaceEntry list \<Rightarrow> jsval list \<Rightarrow> js_error + jsstring option" where
  "projectFromRelevantFiles workspaceEntries [] = Inr None"
| "projectFromRelevantFiles workspaceEntries (filePath # rest) =
     (if truthy filePath then
        (case filePath of
           JStr p \<Rightarrow>
             if found (getProjectFromFilePath p workspaceEntries)
             then Inr (getProjectFromFilePath p workspaceEntries)
             else projectFromRelevantFiles workspaceEntries rest
         | other \<Rightarrow> Inl TypeError)
      else projectFromRelevantFiles workspaceEntries rest)"

text \<open>The value of \<^verbatim>\<open>fileSelection && fileSelection.uri && fileSelection.uri.path\<close>, as far as
  its truth and, when truthy, the path go.\<close>

definition selectionPath :: "jsval \<Rightarrow> jsval" where
  "selectionPath fileSelection =
     (if truthy fileSelection then
        (case get_prop fileSelection (lit ''uri'') of
           Inl e \<Rightarrow> JUndefined
         | Inr uri \<Rightarrow>
             if truthy uri then
               (case get_prop uri (lit ''path'') of Inl e \<Rightarrow> JUndefined | Inr p \<Rightarrow> p)
             else JUndefined)
      else JUndefined)"

definition bubbleFileSelections :: "jsval \<Rightarrow> jsval list" where
  "bubbleFileSelections bubble =
     (case get_prop bubble (lit ''context'') of
        Inl e \<Rightarrow> []
      | Inr ctx \<Rightarrow>
          if truthy ctx then
            (case get_prop ctx (lit ''fileSelections'') of
               Inr (JArr sels) \<Rightarrow> map selectionPath sels
             | other \<Rightarrow> [])
          else [])"

definition bubbleRelevantFiles :: "jsval \<Rightarrow> jsval list" where
  "bubbleRelevantFiles bubble =
     (case get_prop bubble (lit ''relevantFiles'') of
        Inr (JArr files) \<Rightarrow> files
      | other \<Rightarrow> [])"

definition projectFromBubble :: "workspaceEntry list \<Rightarrow> jsval \<Rightarrow> js_error + jsstring option" where
  "projectFromBubble workspaceEntries bubble =
     (case projectFromRelevantFiles workspaceEntries (bubbleRelevantFiles bubble) of
        Inl e \<Rightarrow> Inl e
      | Inr (Some p) \<Rightarrow> Inr (Some p)
      | Inr None \<Rightarrow> projectFromRelevantFiles workspaceEntries (bubbleFileSelections bubble))"

text \<open>\<^verbatim>\<open>header.bubbleId\<close> as the key under which the bubble table is read: a header that is
  \<^verbatim>\<open>null\<close> throws, any other value gives a key.\<close>

definition headerBubbleId :: "jsval \<Rightarrow> js_error + jsstring" where
  "headerBubbleId header =
     (case get_prop header (lit ''bubbleId'') of
        Inl e \<Rightarrow> Inl e
      | Inr bubbleId \<Rightarrow> Inr (ToString bubbleId))"

fun projectFromBubbles ::
  "workspaceEntry list \<Rightarrow> bubbleMap \<Rightarrow> jsval list \<Rightarrow> js_error + jsstring option" where
  "projectFromBubbles workspaceEntries bubbleMap [] = Inr None"
| "projectFromBubbles workspaceEntries bubbleMap (header # rest) =
     (case headerBubbleId header of
        Inl e \<Rightarrow> Inl e
      | Inr bubbleId \<Rightarrow>
          if truthy (bubbleAt bubbleMap bubbleId) then
            (case projectFromBubble workspaceEntries (bubbleAt bubbleMap bubbleId) of
               Inl e \<Rightarrow> Inl e
             | Inr (Some p) \<Rightarrow> Inr (Some p)
             | Inr None \<Rightarrow> projectFromBubbles workspaceEntries bubbleMap rest)
          else projectFromBubbles workspaceEntries bubbleMap rest)"

text \<open>\<^verbatim>\<open>x || []\<close> on an optional list.\<close>

definition or_empty :: "'a list option \<Rightarrow> 'a list" where
  "or_empty xs = (case xs of None \<Rightarrow> [] | Some ys \<Rightarrow> ys)"

definition determineProjectForConversation ::
  "composerData \<Rightarrow> jsstring \<Rightarrow> (jsstring \<rightharpoonup> jsstring list) \<Rightarrow> (jsstring \<rightharpoonup> jsstring) \<Rightarrow>
   workspaceEntry list \<Rightarrow> bubbleMap \<Rightarrow> js_error + projectId option" where
  "determineProjectForConversation composerData composerId projectLayoutsMap
       projectNameToWorkspaceId workspaceEntries bubbleMap =
     (case layoutsOf projectLayoutsMap composerId of
        Inl e \<Rightarrow> Inl e
      | Inr projectLayouts \<Rightarrow>
          (case projectFromLayouts projectNameToWorkspaceId projectLayouts of
             Some workspaceId \<Rightarrow> Inr (Some workspaceId)
           | None \<Rightarrow>
               (case projectFromNewFiles workspaceEntries
                       (or_empty (cd_newlyCreatedFiles composerData)) of
                  Inl e \<Rightarrow> Inl e
                | Inr (Some p) \<Rightarrow> Inr (Some (Workspace p))
                | Inr None \<Rightarrow>
                    (case projectFromPaths workspaceEntries
                            (or_empty (cd_codeBlockData composerData)) of
                       Some p \<Rightarrow> Inr (Some (Workspace p))
                     | None \<Rightarrow>
                         (case projectFromBubbles workspaceEntries bubbleMap
                                 (or_empty (cd_fullConversationHeadersOnly composerData)) of
                            Inl e \<Rightarrow> Inl e
                          | Inr None \<Rightarrow> Inr None
                          | Inr (Some p) \<Rightarrow> Inr (Some (Workspace p)))))))"

subsection \<open>Matching and snippets\<close>

text \<open>The snippet around the first occurrence of the lower-cased query in the lower-cased
  text (lines 290 to 293, and again in each legacy loop): the position is one of the
  lower-cased text, the window is cut from the text itself.\<close>

definition snippet :: "lowercase \<Rightarrow> jsstring \<Rightarrow> jsstring \<Rightarrow> jsstring \<Rightarrow> jsstring" where
  "snippet lower text1 query queryLower =
     (let matchIndex = indexOf (lower text1) queryLower;
          start = max 0 (matchIndex - 50);
          finish = min (int (length text1)) (matchIndex + int (length query) + 100)
      in (if start > 0 then lit ''...'' else [])
         @ slice text1 start finish
         @ (if finish < int (length text1) then lit ''...'' else []))"

text \<open>The bubbles of a unified-store conversation, reached through the bubble table and read
  with \<^verbatim>\<open>extractTextFromBubble\<close>; the loop stops at the first match.\<close>

fun scanReferencedBubbles ::
  "lowercase \<Rightarrow> parser \<Rightarrow> bubbleMap \<Rightarrow> jsstring \<Rightarrow> jsstring \<Rightarrow> jsval list \<Rightarrow>
   js_error + jsstring option" where
  "scanReferencedBubbles lower parse bubbleMap query queryLower [] = Inr None"
| "scanReferencedBubbles lower parse bubbleMap query queryLower (header # rest) =
     (case headerBubbleId header of
        Inl e \<Rightarrow> Inl e
      | Inr bubbleId \<Rightarrow>
          if truthy (bubbleAt bubbleMap bubbleId) then
            (case extractTextFromBubble parse (bubbleAt bubbleMap bubbleId) of
               Inl e \<Rightarrow> Inl e
             | Inr text1 \<Rightarrow>
                 if str_includes (lower text1) queryLower
                 then Inr (Some (snippet lower text1 query queryLower))
                 else scanReferencedBubbles lower parse bubbleMap query queryLower rest)
          else scanReferencedBubbles lower parse bubbleMap query queryLower rest)"

text \<open>The title of a unified-store conversation: its name, or one made from its id.\<close>

definition composerTitle :: "composerData \<Rightarrow> jsstring \<Rightarrow> jsstring" where
  "composerTitle composerData composerId =
     (case cd_name composerData of
        None \<Rightarrow> lit ''Conversation '' @ slice composerId 0 8
      | Some n \<Rightarrow> if n \<noteq> [] then n else lit ''Conversation '' @ slice composerId 0 8)"

definition matchComposer ::
  "lowercase \<Rightarrow> parser \<Rightarrow> bubbleMap \<Rightarrow> jsstring \<Rightarrow> composerData \<Rightarrow> jsstring \<Rightarrow>
   js_error + jsstring option" where
  "matchComposer lower parse bubbleMap query composerData composerId =
     (let queryLower = lower query; title = composerTitle composerData composerId in
      if str_includes (lower title) queryLower then Inr (Some title)
      else scanReferencedBubbles lower parse bubbleMap query queryLower
             (or_empty (cd_fullConversationHeadersOnly composerData)))"

text \<open>
  The inline bubbles of a chat tab and the inline messages of a legacy composer: the test is
  \<^verbatim>\<open>bubble.text?.toLowerCase().includes(queryLower)\<close>, on the \<^verbatim>\<open>text\<close> property alone. A \<^verbatim>\<open>text\<close> that
  is neither missing nor a string has no \<^verbatim>\<open>toLowerCase\<close>.
\<close>

fun scanInlineBubbles ::
  "lowercase \<Rightarrow> jsstring \<Rightarrow> jsstring \<Rightarrow> jsval list \<Rightarrow> js_error + jsstring option" where
  "scanInlineBubbles lower query queryLower [] = Inr None"
| "scanInlineBubbles lower query queryLower (bubble # rest) =
     (case get_prop bubble (lit ''text'') of
        Inl e \<Rightarrow> Inl e
      | Inr JUndefined \<Rightarrow> scanInlineBubbles lower query queryLower rest
      | Inr JNull \<Rightarrow> scanInlineBubbles lower query queryLower rest
      | Inr (JStr text1) \<Rightarrow>
          if str_includes (lower text1) queryLower
          then Inr (Some (snippet lower text1 query queryLower))
          else scanInlineBubbles lower query queryLower rest
      | Inr other \<Rightarrow> Inl TypeError)"

text \<open>The match of a titled conversation with inline bubbles (a chat tab with its
  \<^verbatim>\<open>chatTitle\<close> and \<^verbatim>\<open>bubbles\<close>, a legacy composer with its \<^verbatim>\<open>text\<close> and \<^verbatim>\<open>conversation\<close>).\<close>

definition matchInline ::
  "lowercase \<Rightarrow> jsstring \<Rightarrow> jsstring option \<Rightarrow> jsval list option \<Rightarrow> js_error + jsstring option" where
  "matchInline lower query title bubbles =
     (let queryLower = lower query in
      case (case title of
              None \<Rightarrow> None
            | Some t \<Rightarrow> if str_includes (lower t) queryLower then Some t else None) of
        Some t \<Rightarrow> Inr (Some t)
      | None \<Rightarrow>
          (case bubbles of
             None \<Rightarrow> Inr None
           | Some bs \<Rightarrow> scanInlineBubbles lower query queryLower bs))"

subsection \<open>Search results\<close>

datatype result_type = Chat | Composer

record searchResult =
  sr_workspaceId :: projectId
  sr_workspaceFolder :: "jsstring option"
  sr_chatId :: "jsstring option"
  sr_chatTitle :: jsstring
  sr_timestamp :: timestamp
  sr_matchingText :: jsstring
  sr_type :: result_type

fun ts_truthy :: "timestamp \<Rightarrow> bool" where
  "ts_truthy (TNum n) = (n \<noteq> 0)"
| "ts_truthy (TStr s) = (s \<noteq> [])"

text \<open>\<^verbatim>\<open>a || b\<close> on time stamps; \<open>now\<close> stands for \<^verbatim>\<open>new Date().toISOString()\<close>.\<close>

definition ts_or :: "timestamp option \<Rightarrow> timestamp \<Rightarrow> timestamp" where
  "ts_or a b = (case a of None \<Rightarrow> b | Some t \<Rightarrow> if ts_truthy t then t else b)"

text \<open>The truth of a project id (line 300), and the folder of the workspace entry with that
  name (lines 265 and 266): no entry has a member of \<^verbatim>\<open>Object.prototype\<close> for its name.\<close>

fun projectIdTruthy :: "projectId \<Rightarrow> bool" where
  "projectIdTruthy (Workspace p) = (p \<noteq> [])"
| "projectIdTruthy PrototypeMember = True"

fun findEntryFolder :: "workspaceEntry list \<Rightarrow> projectId \<Rightarrow> jsstring option" where
  "findEntryFolder workspaceEntries (Workspace p) =
     map_option we_folder (List.find (\<lambda>e. we_name e = p) workspaceEntries)"
| "findEntryFolder workspaceEntries PrototypeMember = None"

datatype 'a parsed = Unparsable | Parsed 'a

text \<open>\<^verbatim>\<open>key.split(':')[i]\<close>.\<close>

definition key_part :: "nat \<Rightarrow> jsstring \<Rightarrow> jsstring option" where
  "key_part i key =
     (let parts = split_on (unit CHR '':'') key in
      if i < length parts then Some (parts ! i) else None)"

text \<open>
  One row of the conversation query of the unified store (lines 247 to 314). Parsing, the
  resolver, the matcher and the push stand in one \<^verbatim>\<open>try\<close>: an exception anywhere leaves the
  row without a result. The query selects keys that start with \<^verbatim>\<open>composerData:\<close>, so the key
  has a second part.
\<close>

definition searchComposerRow ::
  "lowercase \<Rightarrow> parser \<Rightarrow> jsstring \<Rightarrow> jsstring \<Rightarrow> workspaceEntry list \<Rightarrow> (jsstring \<rightharpoonup> jsstring) \<Rightarrow>
   (jsstring \<rightharpoonup> jsstring list) \<Rightarrow> bubbleMap \<Rightarrow> jsstring \<times> composerData parsed \<Rightarrow>
   searchResult list" where
  "searchComposerRow lower parse now query workspaceEntries projectNameToWorkspaceId
       projectLayoutsMap bubbleMap row =
     (case key_part 1 (fst row) of
        None \<Rightarrow> []
      | Some composerId \<Rightarrow>
          (case snd row of
             Unparsable \<Rightarrow> []
           | Parsed composerData \<Rightarrow>
               (case determineProjectForConversation composerData composerId projectLayoutsMap
                       projectNameToWorkspaceId workspaceEntries bubbleMap of
                  Inl e \<Rightarrow> []
                | Inr projectId \<Rightarrow>
                    (case matchComposer lower parse bubbleMap query composerData composerId of
                       Inl e \<Rightarrow> []
                     | Inr None \<Rightarrow> []
                     | Inr (Some matchingText) \<Rightarrow>
                         (case projectId of
                            None \<Rightarrow> []
                          | Some p \<Rightarrow>
                              if projectIdTruthy p then
                                [\<lparr> sr_workspaceId = p,
                                   sr_workspaceFolder = findEntryFolder workspaceEntries p,
                                   sr_chatId = Some composerId,
                                   sr_chatTitle = composerTitle composerData composerId,
                                   sr_timestamp =
                                     ts_or (cd_lastUpdatedAt composerData)
                                       (ts_or (cd_createdAt composerData) (TStr now)),
                                   sr_matchingText = matchingText,
                                   sr_type = Composer \<rparr>]
                              else [])))))"

record chatTab =
  tab_tabId :: "jsstring option"
  tab_chatTitle :: "jsstring option"
  tab_bubbles :: "jsval list option"
  tab_lastSendTime :: "timestamp option"

record chatData =
  chat_tabs :: "chatTab list option"

definition tabTitle :: "chatTab \<Rightarrow> jsstring" where
  "tabTitle tab =
     (case tab_chatTitle tab of
        Some t \<Rightarrow> if t \<noteq> [] then t else lit ''Chat '' @ (case tab_tabId tab of
              None \<Rightarrow> lit ''Untitled''
            | Some i \<Rightarrow> if slice i 0 8 \<noteq> [] then slice i 0 8 else lit ''Untitled'')
      | None \<Rightarrow> lit ''Chat '' @ (case tab_tabId tab of
              None \<Rightarrow> lit ''Untitled''
            | Some i \<Rightarrow> if slice i 0 8 \<noteq> [] then slice i 0 8 else lit ''Untitled''))"

text \<open>
  The loop over the tabs of a chat document (lines 328 to 362 for the unified store, with
  the workspace \<^verbatim>\<open>global\<close> and no folder; lines 401 to 435 for a workspace store, with the
  entry's name and folder). An exception leaves the loop; what was pushed stays.
\<close>

fun searchTabs ::
  "lowercase \<Rightarrow> jsstring \<Rightarrow> jsstring \<Rightarrow> projectId \<Rightarrow> jsstring option \<Rightarrow> chatTab list \<Rightarrow>
   searchResult list" where
  "searchTabs lower now query workspaceId workspaceFolder [] = []"
| "searchTabs lower now query workspaceId workspaceFolder (tab # rest) =
     (case matchInline lower query (tab_chatTitle tab) (tab_bubbles tab) of
        Inl e \<Rightarrow> []
      | Inr None \<Rightarrow> searchTabs lower now query workspaceId workspaceFolder rest
      | Inr (Some matchingText) \<Rightarrow>
          \<lparr> sr_workspaceId = workspaceId,
            sr_workspaceFolder = workspaceFolder,
            sr_chatId = tab_tabId tab,
            sr_chatTitle = tabTitle tab,
            sr_timestamp = ts_or (tab_lastSendTime tab) (TStr now),
            sr_matchingText = matchingText,
            sr_type = Chat \<rparr>
          # searchTabs lower now query workspaceId workspaceFolder rest)"

text \<open>A chat document as the item table returns it: no row or an empty value (\<open>None\<close>), a
  value that does not parse, or the document.\<close>

definition searchChatData ::
  "lowercase \<Rightarrow> jsstring \<Rightarrow> jsstring \<Rightarrow> projectId \<Rightarrow> jsstring option \<Rightarrow> chatData parsed option \<Rightarrow>
   searchResult list" where
  "searchChatData lower now query workspaceId workspaceFolder chatResult =
     (case chatResult of
        None \<Rightarrow> []
      | Some Unparsable \<Rightarrow> []
      | Some (Parsed chatData) \<Rightarrow>
          searchTabs lower now query workspaceId workspaceFolder (or_empty (chat_tabs chatData)))"

record legacyComposer =
  lc_composerId :: jsstring
  lc_text :: "jsstring option"
  lc_conversation :: "jsval list option"
  lc_lastUpdatedAt :: "timestamp option"
  lc_createdAt :: "timestamp option"

record legacyComposerData =
  lcd_allComposers :: "legacyComposer list option"

definition legacyComposerTitle :: "legacyComposer \<Rightarrow> jsstring" where
  "legacyComposerTitle composer =
     (case lc_text composer of
        None \<Rightarrow> lit ''Composer '' @ slice (lc_composerId composer) 0 8
      | Some t \<Rightarrow> if t \<noteq> [] then t else lit ''Composer '' @ slice (lc_composerId composer) 0 8)"

fun searchComposers ::
  "lowercase \<Rightarrow> jsstring \<Rightarrow> jsstring \<Rightarrow> workspaceEntry \<Rightarrow> legacyComposer list \<Rightarrow> searchResult list" where
  "searchComposers lower now query entry [] = []"
| "searchComposers lower now query entry (composer # rest) =
     (case matchInline lower query (lc_text composer) (lc_conversation composer) of
        Inl e \<Rightarrow> []
      | Inr None \<Rightarrow> searchComposers lower now query entry rest
      | Inr (Some matchingText) \<Rightarrow>
          \<lparr> sr_workspaceId = Workspace (we_name entry),
            sr_workspaceFolder = Some (we_folder entry),
            sr_chatId = Some (lc_composerId composer),
            sr_chatTitle = legacyComposerTitle composer,
            sr_timestamp =
              ts_or (lc_lastUpdatedAt composer) (ts_or (lc_createdAt composer) (TStr now)),
            sr_matchingText = matchingText,
            sr_type = Composer \<rparr>
          # searchComposers lower now query entry rest)"

definition searchLegacyComposerData ::
  "lowercase \<Rightarrow> jsstring \<Rightarrow> jsstring \<Rightarrow> workspaceEntry \<Rightarrow> legacyComposerData parsed option \<Rightarrow>
   searchResult list" where
  "searchLegacyComposerData lower now query entry composerResult =
     (case composerResult of
        None \<Rightarrow> []
      | Some Unparsable \<Rightarrow> []
      | Some (Parsed composerData) \<Rightarrow>
          searchComposers lower now query entry (or_empty (lcd_allComposers composerData)))"

subsection \<open>Stores\<close>

text \<open>A call into a store (\<^verbatim>\<open>prepare(...).all()\<close>, \<^verbatim>\<open>prepare(...).get()\<close>) returns or throws.\<close>

datatype 'a outcome = Throws | Returns 'a

text \<open>
  The unified store: whether \<^verbatim>\<open>new Database\<close> succeeds, and what its four queries give. Bubble
  and context rows carry their value as text; a conversation row carries the outcome of
  reading its value.
\<close>

record globalStore =
  gs_opens :: bool
  gs_bubbleRows :: "(jsstring \<times> jsstring) list outcome"
  gs_contextRows :: "(jsstring \<times> jsstring) list outcome"
  gs_composerRows :: "(jsstring \<times> composerData parsed) list outcome"
  gs_chatdata :: "chatData parsed option outcome"

record legacyStore =
  ls_opens :: bool
  ls_chatdata :: "chatData parsed option outcome"
  ls_composerData :: "legacyComposerData parsed option outcome"

text \<open>
  An entry of the workspace directory: its name, whether it is a directory, its
  \<^verbatim>\<open>workspace.json\<close> (\<open>None\<close> when the file does not exist; else the outcome of reading and
  parsing it, any value), and its \<^verbatim>\<open>state.vscdb\<close> (\<open>None\<close> when the file does not exist).
\<close>

record dirent =
  de_name :: jsstring
  de_isDirectory :: bool
  de_workspaceJson :: "jsval parsed option"
  de_store :: "legacyStore option"

record world =
  w_readdir :: "dirent list option"
  w_globalStore :: "globalStore option"
  w_now :: jsstring

record request =
  req_q :: "jsstring option"
  req_type :: "jsstring option"

datatype handle = GlobalStore | WorkspaceStore jsstring

datatype event = Opened handle | Closed handle

datatype response =
    Results "searchResult list"
  | ClientError jsstring
  | ServerError jsstring "searchResult list"

text \<open>
  Lines 153 to 169: the workspace entries as they are pushed, each with the store of its
  directory. The folder is \<^verbatim>\<open>workspaceData.folder || ''\<close>, a value of any type, and the empty
  string when reading \<^verbatim>\<open>workspace.json\<close> or its \<^verbatim>\<open>folder\<close> throws.
\<close>

record foundWorkspace =
  fw_name :: jsstring
  fw_folder :: jsval
  fw_store :: "legacyStore option"

definition folderOf :: "jsval parsed \<Rightarrow> jsval" where
  "folderOf workspaceJson =
     (case workspaceJson of
        Unparsable \<Rightarrow> JStr []
      | Parsed workspaceData \<Rightarrow>
          (case get_prop workspaceData (lit ''folder'') of
             Inl e \<Rightarrow> JStr []
           | Inr folder \<Rightarrow> if truthy folder then folder else JStr []))"

fun workspacesOf :: "dirent list \<Rightarrow> foundWorkspace list" where
  "workspacesOf [] = []"
| "workspacesOf (d # ds) =
     (if de_isDirectory d then
        (case de_workspaceJson d of
           None \<Rightarrow> workspacesOf ds
         | Some workspaceJson \<Rightarrow>
             \<lparr> fw_name = de_name d, fw_folder = folderOf workspaceJson, fw_store = de_store d \<rparr>
             # workspacesOf ds)
      else workspacesOf ds)"

text \<open>
  Lines 172 to 180: the index from the last segment of a folder to the workspace. The loop
  stands outside every inner \<^verbatim>\<open>try\<close>: on a truthy folder that is not a string \<^verbatim>\<open>split\<close> is no
  function and the exception leaves the handler. An assignment of a string to the key
  \<^verbatim>\<open>__proto__\<close> is dropped by the setter.
\<close>

definition folderName :: "jsstring \<Rightarrow> jsstring" where
  "folderName folder =
     (if last (split_on (unit CHR ''/'') folder) \<noteq> [] then last (split_on (unit CHR ''/'') folder)
      else last (split_on (unit CHR 0x5C) folder))"

fun projectNameIndex ::
  "(jsstring \<rightharpoonup> jsstring) \<Rightarrow> foundWorkspace list \<Rightarrow> js_error + (jsstring \<rightharpoonup> jsstring)" where
  "projectNameIndex m [] = Inr m"
| "projectNameIndex m (entry # rest) =
     (if truthy (fw_folder entry) then
        (case fw_folder entry of
           JStr folder \<Rightarrow>
             if folderName folder \<noteq> [] \<and> folderName folder \<noteq> lit ''__proto__''
             then projectNameIndex (m(folderName folder \<mapsto> fw_name entry)) rest
             else projectNameIndex m rest
         | other \<Rightarrow> Inl TypeError)
      else projectNameIndex m rest)"

text \<open>Past line 180 every folder is a string: the entry as the scans read it, with its
  store.\<close>

definition entryOf :: "foundWorkspace \<Rightarrow> workspaceEntry \<times> legacyStore option" where
  "entryOf w =
     (\<lparr> we_name = fw_name w, we_folder = (case fw_folder w of JStr folder \<Rightarrow> folder | other \<Rightarrow> []) \<rparr>,
      fw_store w)"

text \<open>Lines 190 to 207: the bubble table.\<close>

fun isObject :: "jsval \<Rightarrow> bool" where
  "isObject (JObj kvs) = True"
| "isObject (JArr xs) = True"
| "isObject v = False"

fun bubbleMapOf :: "parser \<Rightarrow> bubbleMap \<Rightarrow> (jsstring \<times> jsstring) list \<Rightarrow> bubbleMap" where
  "bubbleMapOf parse m [] = m"
| "bubbleMapOf parse m (row # rest) =
     (case key_part 2 (fst row) of
        None \<Rightarrow> bubbleMapOf parse m rest
      | Some bubbleId \<Rightarrow>
          (case parse (snd row) of
             None \<Rightarrow> bubbleMapOf parse m rest
           | Some bubble \<Rightarrow>
               if isObject bubble then bubbleMapOf parse (putBubble m bubbleId bubble) rest
               else bubbleMapOf parse m rest))"

text \<open>Lines 210 to 241: the root paths of the project layouts, by conversation. Under a
  key that \<^verbatim>\<open>Object.prototype\<close> defines no array is created, every \<^verbatim>\<open>push\<close> throws inside the inner
  \<^verbatim>\<open>try\<close>, and the table stays as it is.\<close>

fun rootPaths :: "parser \<Rightarrow> jsval list \<Rightarrow> jsstring list" where
  "rootPaths parse [] = []"
| "rootPaths parse (layout # rest) =
     (case layout of
        JStr l \<Rightarrow>
          (case parse l of
             None \<Rightarrow> rootPaths parse rest
           | Some layoutObj \<Rightarrow>
               (case get_prop layoutObj (lit ''rootPath'') of
                  Inl e \<Rightarrow> rootPaths parse rest
                | Inr rootPath \<Rightarrow>
                    if truthy rootPath then ToString rootPath # rootPaths parse rest
                    else rootPaths parse rest))
      | other \<Rightarrow> rootPaths parse rest)"

fun projectLayoutsMapOf ::
  "parser \<Rightarrow> (jsstring \<rightharpoonup> jsstring list) \<Rightarrow> (jsstring \<times> jsstring) list \<Rightarrow>
   (jsstring \<rightharpoonup> jsstring list)" where
  "projectLayoutsMapOf parse m [] = m"
| "projectLayoutsMapOf parse m (row # rest) =
     (case key_part 1 (fst row) of
        None \<Rightarrow> projectLayoutsMapOf parse m rest
      | Some composerId \<Rightarrow>
          (case parse (snd row) of
             None \<Rightarrow> projectLayoutsMapOf parse m rest
           | Some ctx \<Rightarrow>
               (case get_prop ctx (lit ''projectLayouts'') of
                  Inr (JArr layouts) \<Rightarrow>
                    (case property m composerId of
                       Inherited \<Rightarrow> projectLayoutsMapOf parse m rest
                     | Own projectLayouts \<Rightarrow>
                         projectLayoutsMapOf parse
                           (m(composerId \<mapsto> projectLayouts @ rootPaths parse layouts)) rest
                     | Missing \<Rightarrow>
                         projectLayoutsMapOf parse
                           (m(composerId \<mapsto> rootPaths parse layouts)) rest)
                | other \<Rightarrow> projectLayoutsMapOf parse m rest)))"

definition wants :: "jsstring \<Rightarrow> jsstring \<Rightarrow> bool" where
  "wants type1 kind = (type1 = lit ''all'' \<or> type1 = kind)"

text \<open>
  Lines 185 to 379: the scan of the unified store, with the results it pushes and the
  handle events. Every exit of the \<^verbatim>\<open>try\<close> closes the handle: its last statement, or the
  \<^verbatim>\<open>catch\<close>. When \<^verbatim>\<open>new Database\<close> itself throws there is no handle.
\<close>

definition scanGlobalStore ::
  "lowercase \<Rightarrow> parser \<Rightarrow> jsstring \<Rightarrow> jsstring \<Rightarrow> jsstring \<Rightarrow> workspaceEntry list \<Rightarrow>
   (jsstring \<rightharpoonup> jsstring) \<Rightarrow> globalStore \<Rightarrow> searchResult list \<times> event list" where
  "scanGlobalStore lower parse now query type1 workspaceEntries projectNameToWorkspaceId store =
     (if \<not> gs_opens store then ([], [])
      else
        (case gs_bubbleRows store of
           Throws \<Rightarrow> ([], [Opened GlobalStore, Closed GlobalStore])
         | Returns bubbleRows \<Rightarrow>
             (case gs_contextRows store of
                Throws \<Rightarrow> ([], [Opened GlobalStore, Closed GlobalStore])
              | Returns messageContextRows \<Rightarrow>
                  (case (if wants type1 (lit ''composer'') then
                           (case gs_composerRows store of
                              Throws \<Rightarrow> Throws
                            | Returns composerRows \<Rightarrow>
                                Returns (concat (map (searchComposerRow lower parse now query
                                    workspaceEntries projectNameToWorkspaceId
                                    (projectLayoutsMapOf parse Map.empty messageContextRows)
                                    (bubbleMapOf parse emptyBubbleMap bubbleRows)) composerRows)))
                         else Returns []) of
                     Throws \<Rightarrow> ([], [Opened GlobalStore, Closed GlobalStore])
                   | Returns agentResults \<Rightarrow>
                       (case (if wants type1 (lit ''chat'') then
                                (case gs_chatdata store of
                                   Throws \<Rightarrow> Throws
                                 | Returns globalChatResult \<Rightarrow>
                                     Returns (searchChatData lower now query
                                                (Workspace (lit ''global'')) None
                                                globalChatResult))
                              else Returns []) of
                          Throws \<Rightarrow> (agentResults, [Opened GlobalStore, Closed GlobalStore])
                        | Returns chatResults \<Rightarrow>
                            (agentResults @ chatResults,
                             [Opened GlobalStore, Closed GlobalStore]))))))"

text \<open>
  Lines 382 to 500: the scan of one workspace store. \<^verbatim>\<open>db.close()\<close> is the last statement of
  the \<^verbatim>\<open>try\<close>; the \<^verbatim>\<open>catch\<close> only logs.
\<close>

definition scanWorkspaceStore ::
  "lowercase \<Rightarrow> jsstring \<Rightarrow> jsstring \<Rightarrow> jsstring \<Rightarrow> workspaceEntry \<Rightarrow> legacyStore \<Rightarrow>
   searchResult list \<times> event list" where
  "scanWorkspaceStore lower now query type1 entry store =
     (if \<not> ls_opens store then ([], [])
      else
        (case (if wants type1 (lit ''chat'') then
                 (case ls_chatdata store of
                    Throws \<Rightarrow> Throws
                  | Returns chatResult \<Rightarrow>
                      Returns (searchChatData lower now query (Workspace (we_name entry))
                                 (Some (we_folder entry)) chatResult))
               else Returns []) of
           Throws \<Rightarrow> ([], [Opened (WorkspaceStore (we_name entry))])
         | Returns chatResults \<Rightarrow>
             (case (if wants type1 (lit ''composer'') then
                      (case ls_composerData store of
                         Throws \<Rightarrow> Throws
                       | Returns composerResult \<Rightarrow>
                           Returns (searchLegacyComposerData lower now query entry
                                      composerResult))
                    else Returns []) of
                Throws \<Rightarrow> (chatResults, [Opened (WorkspaceStore (we_name entry))])
              | Returns composerResults \<Rightarrow>
                  (chatResults @ composerResults,
                   [Opened (WorkspaceStore (we_name entry)),
                    Closed (WorkspaceStore (we_name entry))]))))"

fun scanWorkspaces ::
  "lowercase \<Rightarrow> jsstring \<Rightarrow> jsstring \<Rightarrow> jsstring \<Rightarrow> (workspaceEntry \<times> legacyStore option) list \<Rightarrow>
   searchResult list \<times> event list" where
  "scanWorkspaces lower now query type1 [] = ([], [])"
| "scanWorkspaces lower now query type1 (w # ws) =
     (case snd w of
        None \<Rightarrow> scanWorkspaces lower now query type1 ws
      | Some store \<Rightarrow>
          (fst (scanWorkspaceStore lower now query type1 (fst w) store)
             @ fst (scanWorkspaces lower now query type1 ws),
           snd (scanWorkspaceStore lower now query type1 (fst w) store)
             @ snd (scanWorkspaces lower now query type1 ws)))"

subsection \<open>Duplicates and order\<close>

text \<open>\<^verbatim>\<open>self.findIndex(p)\<close>: the first position whose element satisfies \<open>p\<close>, or \<open>-1\<close>.\<close>

fun findIndex_from :: "nat \<Rightarrow> ('a \<Rightarrow> bool) \<Rightarrow> 'a list \<Rightarrow> int" where
  "findIndex_from k p [] = - 1"
| "findIndex_from k p (x # xs) = (if p x then int k else findIndex_from (Suc k) p xs)"

definition findIndex :: "('a \<Rightarrow> bool) \<Rightarrow> 'a list \<Rightarrow> int" where
  "findIndex p xs = findIndex_from 0 p xs"

text \<open>Lines 503 to 505: an entry stays when its position is the first one with its chat id.\<close>

definition uniqueResults :: "searchResult list \<Rightarrow> searchResult list" where
  "uniqueResults results =
     map snd
       (filter (\<lambda>ir. int (fst ir) = findIndex (\<lambda>r. sr_chatId r = sr_chatId (snd ir)) results)
          (enumerate 0 results))"

type_synonym dateparser = "jsstring \<Rightarrow> int option"

text \<open>The time of a result: a number as it is, a string through \<^verbatim>\<open>new Date(s).getTime()\<close>,
  which is \<^verbatim>\<open>NaN\<close> (\<open>None\<close>) when the string is no date.\<close>

definition getTime :: "dateparser \<Rightarrow> timestamp \<Rightarrow> int option" where
  "getTime parseDate t = (case t of TNum n \<Rightarrow> Some n | TStr s \<Rightarrow> parseDate s)"

text \<open>The comparator of lines 508 to 512, \<^verbatim>\<open>timeB - timeA\<close>.\<close>

definition compareResults :: "dateparser \<Rightarrow> searchResult \<Rightarrow> searchResult \<Rightarrow> int option" where
  "compareResults parseDate a b =
     (case getTime parseDate (sr_timestamp a) of
        None \<Rightarrow> None
      | Some timeA \<Rightarrow>
          (case getTime parseDate (sr_timestamp b) of
             None \<Rightarrow> None
           | Some timeB \<Rightarrow> Some (timeB - timeA)))"

text \<open>
  \<^verbatim>\<open>Array.prototype.sort\<close> with a comparator, as a stable insertion sort: an element goes in
  front of the first one it compares below; a comparison that gives \<^verbatim>\<open>NaN\<close> counts as equal,
  as the language prescribes. The language fixes the sorted list only when the comparator
  is a consistent order on the elements: then every implementation gives this list. That
  is so when every element has a time, and when all comparisons give \<^verbatim>\<open>NaN\<close> or zero (the list
  then stays as it is). For other lists the language leaves the order to the
  implementation; the list given here is then one permutation among those allowed, and
  nothing below relies on which.
\<close>

fun insertSorted :: "('a \<Rightarrow> 'a \<Rightarrow> int option) \<Rightarrow> 'a \<Rightarrow> 'a list \<Rightarrow> 'a list" where
  "insertSorted cmp x [] = [x]"
| "insertSorted cmp x (y # ys) =
     (if (case cmp x y of None \<Rightarrow> False | Some d \<Rightarrow> d < 0) then x # y # ys
      else y # insertSorted cmp x ys)"

definition sortBy :: "('a \<Rightarrow> 'a \<Rightarrow> int option) \<Rightarrow> 'a list \<Rightarrow> 'a list" where
  "sortBy cmp xs = foldl (\<lambda>acc x. insertSorted cmp x acc) [] xs"

subsection \<open>The handler\<close>

text \<open>The \<^verbatim>\<open>results\<close> array and the handle events when both loops are through (line 501):
  the unified store first, then the workspace stores in the order of the directory.\<close>

definition scanStores ::
  "lowercase \<Rightarrow> parser \<Rightarrow> jsstring \<Rightarrow> jsstring \<Rightarrow> jsstring \<Rightarrow> (jsstring \<rightharpoonup> jsstring) \<Rightarrow>
   (workspaceEntry \<times> legacyStore option) list \<Rightarrow> globalStore option \<Rightarrow>
   searchResult list \<times> event list" where
  "scanStores lower parse now query type1 projectNameToWorkspaceId workspaces globalStore =
     (let global = (case globalStore of
                      None \<Rightarrow> ([], [])
                    | Some store \<Rightarrow>
                        scanGlobalStore lower parse now query type1 (map fst workspaces)
                          projectNameToWorkspaceId store);
          legacy = scanWorkspaces lower now query type1 workspaces
      in (fst global @ fst legacy, snd global @ snd legacy))"

definition typeOf :: "request \<Rightarrow> jsstring" where
  "typeOf req =
     (case req_type req of None \<Rightarrow> lit ''all'' | Some t \<Rightarrow> if t \<noteq> [] then t else lit ''all'')"

text \<open>
  \<^verbatim>\<open>GET\<close>: the response and the handle events in their order. Two steps stand outside every
  inner \<^verbatim>\<open>try\<close>: reading the workspace directory, and building the index of folder names. When
  one of them throws no handle has been opened yet, and the outer \<^verbatim>\<open>catch\<close> answers with the
  server error.
\<close>

definition GET ::
  "lowercase \<Rightarrow> parser \<Rightarrow> dateparser \<Rightarrow> request \<Rightarrow> world \<Rightarrow> response \<times> event list" where
  "GET lower parse parseDate req w =
     (case req_q req of
        None \<Rightarrow> (ClientError (lit ''No search query provided''), [])
      | Some query \<Rightarrow>
          if query = [] then (ClientError (lit ''No search query provided''), [])
          else
            (case w_readdir w of
               None \<Rightarrow> (ServerError (lit ''Search failed'') [], [])
             | Some entries \<Rightarrow>
                 (case projectNameIndex Map.empty (workspacesOf entries) of
                    Inl e \<Rightarrow> (ServerError (lit ''Search failed'') [], [])
                  | Inr projectNameToWorkspaceId \<Rightarrow>
                      (let scanned = scanStores lower parse (w_now w) query (typeOf req)
                                       projectNameToWorkspaceId
                                       (map entryOf (workspacesOf entries)) (w_globalStore w)
                       in (Results (sortBy (compareResults parseDate)
                                      (uniqueResults (fst scanned))),
                           snd scanned)))))"

subsection \<open>Duplicates, order, handles and matching as the specification states them\<close>

text \<open>The entries that are the first with their chat id, given the ids seen before.\<close>

fun firstOccurrences :: "jsstring option list \<Rightarrow> searchResult list \<Rightarrow> searchResult list" where
  "firstOccurrences seen [] = []"
| "firstOccurrences seen (r # rs) =
     (if sr_chatId r \<in> set seen then firstOccurrences seen rs
      else r # firstOccurrences (sr_chatId r # seen) rs)"

text \<open>\<open>timeNotBefore a b\<close>: both results have a time, and that of \<open>a\<close> is not less than that of
  \<open>b\<close>. A result is \<open>dated\<close> when it has a time.\<close>

definition timeNotBefore :: "dateparser \<Rightarrow> searchResult \<Rightarrow> searchResult \<Rightarrow> bool" where
  "timeNotBefore parseDate a b =
     (case getTime parseDate (sr_timestamp a) of
        None \<Rightarrow> False
      | Some timeA \<Rightarrow>
          (case getTime parseDate (sr_timestamp b) of
             None \<Rightarrow> False
           | Some timeB \<Rightarrow> timeB \<le> timeA))"

definition dated :: "dateparser \<Rightarrow> searchResult \<Rightarrow> bool" where
  "dated parseDate r = (getTime parseDate (sr_timestamp r) \<noteq> None)"

text \<open>\<open>releasedBeforeNext held events\<close>: no handle is opened while another one is held, only
  the held handle is closed, and none is held in the end.\<close>

fun releasedBeforeNext :: "handle option \<Rightarrow> event list \<Rightarrow> bool" where
  "releasedBeforeNext held [] = (held = None)"
| "releasedBeforeNext held (Opened h # es) = (held = None \<and> releasedBeforeNext (Some h) es)"
| "releasedBeforeNext held (Closed h # es) = (held = Some h \<and> releasedBeforeNext None es)"







subsection \<open>Sample stores\<close>

text \<open>A small installation used to instantiate the theorems below: one workspace directory
  with a legacy store, one plain file, and a unified store with one conversation, one
  unreadable conversation row, one unreadable bubble row and one chat tab. \<open>sample_lower\<close>
  is \<^verbatim>\<open>toLowerCase\<close> on the strings of the samples, whose letters are those from A to Z. In
  \<open>sample_context_json\<close> the code unit 92 is the backslash in front of each quotation mark of
  the layout, which is a string inside the document.\<close>

definition sample_lower :: lowercase where
  "sample_lower s = map (\<lambda>u. if 65 \<le> u \<and> u \<le> 90 then u + 32 else u) s"

definition sample_bubble_json :: jsstring where
  \<open>sample_bubble_json = lit ''{"text":"We traced the race condition in the scheduler today"}''\<close>

definition sample_rich_json :: jsstring where
  \<open>sample_rich_json = lit ''{"root":{"children":[{"type":"paragraph","children":[{"type":"text","text":"A"},{"type":"quote","children":[{"type":"text","text":"B"},{"type":"list","children":[{"type":"text","text":"C"}]}]}]}]}}''\<close>

definition sample_context_json :: jsstring where
  \<open>sample_context_json =
     lit ''{"projectLayouts":["{'' @ [92] @ lit ''"rootPath'' @ [92] @ lit ''":'' @ [92]
     @ lit ''"/home/u/alpha'' @ [92] @ lit ''"}"]}''\<close>

definition sample_layout_json :: jsstring where
  \<open>sample_layout_json = lit ''{"rootPath":"/home/u/alpha"}''\<close>

definition sample_richdoc :: "richdoc list" where
  "sample_richdoc =
     [Container (lit ''paragraph'')
        [Leaf (lit ''A''),
         Container (lit ''quote'') [Leaf (lit ''B''), Container (lit ''list'') [Leaf (lit ''C'')]]]]"

definition sample_parse :: parser where
  "sample_parse s =
     (if s = sample_bubble_json
      then Some (JObj [(lit ''text'',
                        JStr (lit ''We traced the race condition in the scheduler today''))])
      else if s = sample_rich_json then Some (encode_document sample_richdoc)
      else if s = sample_context_json
      then Some (JObj [(lit ''projectLayouts'', JArr [JStr sample_layout_json])])
      else if s = sample_layout_json
      then Some (JObj [(lit ''rootPath'', JStr (lit ''/home/u/alpha''))])
      else None)"

definition sample_dates :: dateparser where
  "sample_dates s = (if s = lit ''2024-01-01T00:00:00.000Z'' then Some 1704067200000 else None)"

definition sample_composer :: composerData where
  "sample_composer =
     \<lparr> cd_name = Some (lit ''Refactor auth module''),
       cd_newlyCreatedFiles =
         Some [JObj [(lit ''uri'', JObj [(lit ''path'', JStr (lit ''/home/u/alpha/src/auth.ts''))])]],
       cd_codeBlockData = None,
       cd_fullConversationHeadersOnly = Some [JObj [(lit ''bubbleId'', JStr (lit ''b1''))]],
       cd_lastUpdatedAt = Some (TNum 1500000000000),
       cd_createdAt = None \<rparr>"

definition sample_global_tab :: chatTab where
  "sample_global_tab =
     \<lparr> tab_tabId = Some (lit ''tab-global-1''),
       tab_chatTitle = Some (lit ''Refactor Auth Module''),
       tab_bubbles = Some [],
       tab_lastSendTime = Some (TNum 1600000000000) \<rparr>"

definition sample_global_store :: globalStore where
  "sample_global_store =
     \<lparr> gs_opens = True,
       gs_bubbleRows =
         Returns [(lit ''bubbleId:c1:b1'', sample_bubble_json),
                  (lit ''bubbleId:c1:b2'', lit ''{not json'')],
       gs_contextRows = Returns [],
       gs_composerRows =
         Returns [(lit ''composerData:c1'', Parsed sample_composer),
                  (lit ''composerData:c2'', Unparsable)],
       gs_chatdata = Returns (Some (Parsed \<lparr> chat_tabs = Some [sample_global_tab] \<rparr>)) \<rparr>"

definition sample_legacy_tab :: chatTab where
  "sample_legacy_tab =
     \<lparr> tab_tabId = Some (lit ''tab-1''),
       tab_chatTitle = Some (lit ''Debugging''),
       tab_bubbles =
         Some [JObj [(lit ''text'',
                      JStr (lit ''We traced the race condition in the scheduler today''))]],
       tab_lastSendTime = None \<rparr>"

definition sample_legacy_store :: legacyStore where
  "sample_legacy_store =
     \<lparr> ls_opens = True,
       ls_chatdata = Returns (Some (Parsed \<lparr> chat_tabs = Some [sample_legacy_tab] \<rparr>)),
       ls_composerData =
         Returns (Some (Parsed \<lparr> lcd_allComposers = Some
           [\<lparr> lc_composerId = lit ''c1'',
               lc_text = Some (lit ''Refactor auth module (legacy copy)''),
               lc_conversation = Some [], lc_lastUpdatedAt = Some (TNum 1800000000000),
               lc_createdAt = None \<rparr>] \<rparr>)) \<rparr>"

definition sample_alpha_json :: "jsval parsed option" where
  "sample_alpha_json = Some (Parsed (JObj [(lit ''folder'', JStr (lit ''file:///home/u/alpha''))]))"

text \<open>A workspace whose chat tabs carry a time stamp that is no date, and one whose store
  opens but has no item table, so that its first query throws.\<close>

definition sample_undated_store :: legacyStore where
  "sample_undated_store =
     \<lparr> ls_opens = True,
       ls_chatdata = Returns (Some (Parsed \<lparr> chat_tabs = Some
         [\<lparr> tab_tabId = Some (lit ''tab-a''), tab_chatTitle = Some (lit ''Deploy plan''),
             tab_bubbles = None, tab_lastSendTime = Some (TStr (lit ''yesterday'')) \<rparr>,
          \<lparr> tab_tabId = Some (lit ''tab-b''), tab_chatTitle = Some (lit ''Deploy checklist''),
             tab_bubbles = None, tab_lastSendTime = Some (TNum 1700000000000) \<rparr>] \<rparr>)),
       ls_composerData = Returns None \<rparr>"

definition sample_undated_world :: world where
  "sample_undated_world =
     \<lparr> w_readdir = Some
         [\<lparr> de_name = lit ''ws1'', de_isDirectory = True,
             de_workspaceJson = sample_alpha_json,
             de_store = Some sample_undated_store \<rparr>],
       w_globalStore = None,
       w_now = lit ''2024-01-01T00:00:00.000Z'' \<rparr>"

definition sample_broken_store :: legacyStore where
  "sample_broken_store =
     \<lparr> ls_opens = True, ls_chatdata = Throws, ls_composerData = Throws \<rparr>"

definition sample_broken_world :: world where
  "sample_broken_world =
     \<lparr> w_readdir = Some
         [\<lparr> de_name = lit ''ws0'', de_isDirectory = True,
             de_workspaceJson =
               Some (Parsed (JObj [(lit ''folder'', JStr (lit ''file:///home/u/zero''))])),
             de_store = Some sample_broken_store \<rparr>,
          \<lparr> de_name = lit ''ws1'', de_isDirectory = True,
             de_workspaceJson = sample_alpha_json,
             de_store = Some sample_legacy_store \<rparr>],
       w_globalStore = Some sample_global_store,
       w_now = lit ''2024-01-01T00:00:00.000Z'' \<rparr>"

definition sample_entries :: "workspaceEntry list" where
  "sample_entries = [\<lparr> we_name = lit ''ws1'', we_folder = lit ''file:///home/u/alpha'' \<rparr>]"

definition sample_index :: "jsstring \<rightharpoonup> jsstring" where
  "sample_index = [lit ''alpha'' \<mapsto> lit ''ws1'']"

definition sample_world :: world where
  "sample_world =
     \<lparr> w_readdir = Some
         [\<lparr> de_name = lit ''ws1'', de_isDirectory = True,
             de_workspaceJson = sample_alpha_json,
             de_store = Some sample_legacy_store \<rparr>,
          \<lparr> de_name = lit ''notes.txt'', de_isDirectory = False,
             de_workspaceJson = None, de_store = None \<rparr>],
       w_globalStore = Some sample_global_store,
       w_now = lit ''2024-01-01T00:00:00.000Z'' \<rparr>"





text \<open>
  A conversation that only its recorded root path ties to a workspace, in a unified store
  whose context row records that path, \<^verbatim>\<open>/home/u/alpha\<close>, for it.
\<close>

definition sample_orphan :: composerData where
  "sample_orphan =
     \<lparr> cd_name = Some (lit ''Orphan notes''),
       cd_newlyCreatedFiles = None,
       cd_codeBlockData = None,
       cd_fullConversationHeadersOnly = None,
       cd_lastUpdatedAt = Some (TNum 1400000000000),
       cd_createdAt = None \<rparr>"

definition sample_layout_store :: globalStore where
  "sample_layout_store =
     \<lparr> gs_opens = True,
       gs_bubbleRows = Returns [],
       gs_contextRows = Returns [(lit ''messageRequestContext:c7:r1'', sample_context_json)],
       gs_composerRows = Returns [(lit ''composerData:c7'', Parsed sample_orphan)],
       gs_chatdata = Returns None \<rparr>"

definition sample_layout_world :: world where
  "sample_layout_world =
     \<lparr> w_readdir = Some
         [\<lparr> de_name = lit ''ws1'', de_isDirectory = True,
             de_workspaceJson = sample_alpha_json, de_store = None \<rparr>],
       w_globalStore = Some sample_layout_store,
       w_now = lit ''2024-01-01T00:00:00.000Z'' \<rparr>"







section \<open>Properties\<close>

subsection \<open>Literals\<close>

lemma unit_eq_iff [simp]: "unit c = unit d \<longleftrightarrow> c = d"
  by (simp add: unit_def)

lemma lit_Nil [simp]: "lit [] = []"
  by (simp add: lit_def)

lemma lit_Cons: "lit (c # cs) = unit c # lit cs"
  by (simp add: lit_def)

lemma lit_eq_iff [simp]: "lit a = lit b \<longleftrightarrow> a = b"
proof (induction a arbitrary: b)
  case Nil
  show ?case by (cases b) (simp_all add: lit_Cons)
next
  case (Cons c cs)
  show ?case by (cases b) (simp_all add: lit_Cons Cons.IH)
qed

lemma lit_eq_Nil [simp]: "lit s = [] \<longleftrightarrow> s = []"
  by (simp add: lit_def)

lemma length_lit [simp]: "length (lit s) = length s"
  by (simp add: lit_def)

subsection \<open>Attribution of results\<close>

lemma searchTabs_attribution:
  "r \<in> set (searchTabs lower now query wid folder tabs) \<Longrightarrow>
     sr_workspaceId r = wid \<and> sr_workspaceFolder r = folder \<and> sr_type r = Chat"
proof (induction tabs)
  case Nil
  then show ?case by simp
next
  case (Cons tab rest)
  show ?case
  proof (cases "matchInline lower query (tab_chatTitle tab) (tab_bubbles tab)")
    case (Inl e)
    with Cons.prems show ?thesis by simp
  next
    case (Inr m)
    show ?thesis
    proof (cases m)
      case None
      with Inr Cons show ?thesis by simp
    next
      case (Some matchingText)
      with Inr Cons.prems have "r = \<lparr> sr_workspaceId = wid,
            sr_workspaceFolder = folder,
            sr_chatId = tab_tabId tab,
            sr_chatTitle = tabTitle tab,
            sr_timestamp = ts_or (tab_lastSendTime tab) (TStr now),
            sr_matchingText = matchingText,
            sr_type = Chat \<rparr> \<or> r \<in> set (searchTabs lower now query wid folder rest)"
        by simp
      then show ?thesis
      proof
        assume "r = \<lparr> sr_workspaceId = wid,
            sr_workspaceFolder = folder,
            sr_chatId = tab_tabId tab,
            sr_chatTitle = tabTitle tab,
            sr_timestamp = ts_or (tab_lastSendTime tab) (TStr now),
            sr_matchingText = matchingText,
            sr_type = Chat \<rparr>"
        then show ?thesis by simp
      next
        assume "r \<in> set (searchTabs lower now query wid folder rest)"
        then show ?thesis by (rule Cons.IH)
      qed
    qed
  qed
qed

lemma searchChatData_attribution:
  "r \<in> set (searchChatData lower now query wid folder d) \<Longrightarrow>
     sr_workspaceId r = wid \<and> sr_workspaceFolder r = folder \<and> sr_type r = Chat"
  by (auto simp: searchChatData_def split: option.splits parsed.splits
      dest: searchTabs_attribution)

lemma searchComposerRow_result:
  assumes "r \<in> set (searchComposerRow lower parse now query es idx lay bm row)"
  shows "\<exists>composerId cd p m. key_part 1 (fst row) = Some composerId \<and> snd row = Parsed cd
          \<and> determineProjectForConversation cd composerId lay idx es bm = Inr (Some p)
          \<and> projectIdTruthy p
          \<and> matchComposer lower parse bm query cd composerId = Inr (Some m)
          \<and> r = \<lparr> sr_workspaceId = p, sr_workspaceFolder = findEntryFolder es p,
                   sr_chatId = Some composerId, sr_chatTitle = composerTitle cd composerId,
                   sr_timestamp = ts_or (cd_lastUpdatedAt cd) (ts_or (cd_createdAt cd) (TStr now)),
                   sr_matchingText = m, sr_type = Composer \<rparr>"
proof (cases "key_part 1 (fst row)")
  case None
  with assms show ?thesis by (simp add: searchComposerRow_def)
next
  case (Some composerId)
  note k = this
  show ?thesis
  proof (cases "snd row")
    case Unparsable
    with assms k show ?thesis by (simp add: searchComposerRow_def)
  next
    case (Parsed cd)
    note c = this
    show ?thesis
    proof (cases "determineProjectForConversation cd composerId lay idx es bm")
      case (Inl e)
      with assms k c show ?thesis by (simp add: searchComposerRow_def)
    next
      case (Inr projectId)
      note d = this
      show ?thesis
      proof (cases "matchComposer lower parse bm query cd composerId")
        case (Inl e)
        with assms k c d show ?thesis by (simp add: searchComposerRow_def)
      next
        case (Inr mt)
        note m = this
        show ?thesis
        proof (cases mt)
          case None
          with assms k c d m show ?thesis by (simp add: searchComposerRow_def)
        next
          case (Some matchingText)
          note mm = this
          show ?thesis
          proof (cases projectId)
            case None
            with assms k c d m mm show ?thesis by (simp add: searchComposerRow_def)
          next
            case (Some p)
            with assms k c d m mm show ?thesis
              by (cases "projectIdTruthy p") (simp_all add: searchComposerRow_def)
          qed
        qed
      qed
    qed
  qed
qed

lemma searchComposerRow_type:
  "r \<in> set (searchComposerRow lower parse now query es idx lay bm row) \<Longrightarrow> sr_type r = Composer"
  using searchComposerRow_result by fastforce

lemma scanGlobalStore_chat_results:
  assumes "r \<in> set (fst (scanGlobalStore lower parse now query type1 es idx store))"
    and "sr_type r = Chat"
  shows "wants type1 (lit ''chat'') \<and>
         (\<exists>d. gs_chatdata store = Returns d
             \<and> r \<in> set (searchChatData lower now query (Workspace (lit ''global'')) None d))"
proof -
  have not_agent:
    "r \<notin> set (concat (map (searchComposerRow lower parse now query es idx lay bm) rows))"
    for lay bm rows
    using assms(2) searchComposerRow_type by fastforce
  show ?thesis
    using assms(1) not_agent unfolding scanGlobalStore_def
    by (auto split: if_splits outcome.splits)
qed

text \<open>
  C10. Every ask-conversation result that the scan of the unified store emits carries the
  workspace id \<^verbatim>\<open>global\<close> and no workspace folder, whatever the workspace entries, the index of
  folder names, the project layouts and the bubbles are: the resolver has no part in it.
\<close>

theorem unified_ask_results_are_global:
  assumes "r \<in> set (fst (scanGlobalStore lower parse now query type1 workspaceEntries
                           projectNameToWorkspaceId store))"
    and "sr_type r = Chat"
  shows "sr_workspaceId r = Workspace (lit ''global'') \<and> sr_workspaceFolder r = None"
  using scanGlobalStore_chat_results[OF assms] searchChatData_attribution by blast

theorem unified_ask_results_are_global_witness:
  "\<lparr> sr_workspaceId = Workspace (lit ''global''), sr_workspaceFolder = None,
     sr_chatId = Some (lit ''tab-global-1''), sr_chatTitle = lit ''Refactor Auth Module'',
     sr_timestamp = TNum 1600000000000, sr_matchingText = lit ''Refactor Auth Module'',
     sr_type = Chat \<rparr>
     \<in> set (fst (scanGlobalStore sample_lower sample_parse (lit ''2024-01-01T00:00:00.000Z'')
                   (lit ''REFACTOR'') (lit ''all'') sample_entries sample_index
                   sample_global_store))
   \<and> sr_workspaceId \<lparr> sr_workspaceId = Workspace (lit ''global''), sr_workspaceFolder = None,
     sr_chatId = Some (lit ''tab-global-1''), sr_chatTitle = lit ''Refactor Auth Module'',
     sr_timestamp = TNum 1600000000000, sr_matchingText = lit ''Refactor Auth Module'',
     sr_type = Chat \<rparr> = Workspace (lit ''global'')"
proof -
  let ?r = "\<lparr> sr_workspaceId = Workspace (lit ''global''), sr_workspaceFolder = None,
     sr_chatId = Some (lit ''tab-global-1''), sr_chatTitle = lit ''Refactor Auth Module'',
     sr_timestamp = TNum 1600000000000, sr_matchingText = lit ''Refactor Auth Module'',
     sr_type = Chat \<rparr>"
  have m: "?r \<in> set (fst (scanGlobalStore sample_lower sample_parse
                   (lit ''2024-01-01T00:00:00.000Z'') (lit ''REFACTOR'') (lit ''all'')
                   sample_entries sample_index sample_global_store))"
    by code_simp
  have t: "sr_type ?r = Chat" by simp
  from unified_ask_results_are_global[OF m t] m show ?thesis by simp
qed

subsection \<open>The request\<close>

text \<open>
  C9. A request whose query is missing or empty gets the client error with its fixed message
  and leaves no handle event: nothing of the installation is read. A request with a
  non-empty query goes on to the scan: it reads the workspace directory and builds the index
  of folder names and, unless one of the two throws, scans the stores and answers with
  their results.
\<close>

theorem missing_query_is_client_error:
  "(req_q req = None \<or> req_q req = Some [] \<longrightarrow>
      GET lower parse parseDate req w = (ClientError (lit ''No search query provided''), []))
   \<and> (\<forall>query. req_q req = Some query \<and> query \<noteq> [] \<longrightarrow>
        GET lower parse parseDate req w =
          (case w_readdir w of
             None \<Rightarrow> (ServerError (lit ''Search failed'') [], [])
           | Some entries \<Rightarrow>
               (case projectNameIndex Map.empty (workspacesOf entries) of
                  Inl e \<Rightarrow> (ServerError (lit ''Search failed'') [], [])
                | Inr projectNameToWorkspaceId \<Rightarrow>
                    (Results (sortBy (compareResults parseDate)
                       (uniqueResults
                          (fst (scanStores lower parse (w_now w) query (typeOf req)
                                  projectNameToWorkspaceId (map entryOf (workspacesOf entries))
                                  (w_globalStore w))))),
                     snd (scanStores lower parse (w_now w) query (typeOf req)
                            projectNameToWorkspaceId (map entryOf (workspacesOf entries))
                            (w_globalStore w))))))"
proof (cases "req_q req")
  case None
  then show ?thesis by (simp add: GET_def)
next
  case (Some q)
  show ?thesis
  proof (cases "w_readdir w")
    case None
    with Some show ?thesis by (simp add: GET_def)
  next
    case (Some entries)
    with \<open>req_q req = Some q\<close> show ?thesis
      by (cases "projectNameIndex Map.empty (workspacesOf entries)")
         (simp_all add: GET_def Let_def)
  qed
qed

theorem missing_query_is_client_error_witness:
  "GET sample_lower sample_parse sample_dates \<lparr> req_q = None, req_type = None \<rparr> sample_world
     = (ClientError (lit ''No search query provided''), [])
   \<and> GET sample_lower sample_parse sample_dates
        \<lparr> req_q = Some [], req_type = Some (lit ''chat'') \<rparr> sample_world
     = (ClientError (lit ''No search query provided''), [])
   \<and> GET sample_lower sample_parse sample_dates
        \<lparr> req_q = Some (lit ''refactor''), req_type = Some (lit ''composer'') \<rparr> sample_world
     = (Results
          [\<lparr> sr_workspaceId = Workspace (lit ''ws1''),
             sr_workspaceFolder = Some (lit ''file:///home/u/alpha''),
             sr_chatId = Some (lit ''c1''), sr_chatTitle = lit ''Refactor auth module'',
             sr_timestamp = TNum 1500000000000, sr_matchingText = lit ''Refactor auth module'',
             sr_type = Composer \<rparr>],
        [Opened GlobalStore, Closed GlobalStore,
         Opened (WorkspaceStore (lit ''ws1'')), Closed (WorkspaceStore (lit ''ws1''))])"
proof -
  have a: "GET sample_lower sample_parse sample_dates \<lparr> req_q = None, req_type = None \<rparr>
       sample_world = (ClientError (lit ''No search query provided''), [])"
    using missing_query_is_client_error
      [where req = "\<lparr> req_q = None, req_type = None \<rparr>" and lower = sample_lower
         and parse = sample_parse and parseDate = sample_dates and w = sample_world]
    by simp
  have b: "GET sample_lower sample_parse sample_dates
        \<lparr> req_q = Some [], req_type = Some (lit ''chat'') \<rparr> sample_world
     = (ClientError (lit ''No search query provided''), [])"
    using missing_query_is_client_error
      [where req = "\<lparr> req_q = Some [], req_type = Some (lit ''chat'') \<rparr>" and lower = sample_lower
         and parse = sample_parse and parseDate = sample_dates and w = sample_world]
    by simp
  have c: "GET sample_lower sample_parse sample_dates
        \<lparr> req_q = Some (lit ''refactor''), req_type = Some (lit ''composer'') \<rparr> sample_world
     = (Results
          [\<lparr> sr_workspaceId = Workspace (lit ''ws1''),
             sr_workspaceFolder = Some (lit ''file:///home/u/alpha''),
             sr_chatId = Some (lit ''c1''), sr_chatTitle = lit ''Refactor auth module'',
             sr_timestamp = TNum 1500000000000, sr_matchingText = lit ''Refactor auth module'',
             sr_type = Composer \<rparr>],
        [Opened GlobalStore, Closed GlobalStore,
         Opened (WorkspaceStore (lit ''ws1'')), Closed (WorkspaceStore (lit ''ws1''))])"
    by code_simp
  from a b c show ?thesis by simp
qed

subsection \<open>Text extraction\<close>

lemma rich_loop_encode_step:
  "rich_loop rest = Inr r \<Longrightarrow> rich_loop (encode d # rest) = Inr (leaf_text d @ r)"
proof (induction d arbitrary: rest r)
  case (Leaf s)
  then show ?case by simp
next
  case (Container ty ds)
  have inner: "rich_loop (map encode ds) = Inr (concat (map leaf_text ds))"
    using Container.IH
  proof (induction ds)
    case Nil
    show ?case by simp
  next
    case (Cons d ds)
    have tl: "rich_loop (map encode ds) = Inr (concat (map leaf_text ds))"
      using Cons by simp
    have "rich_loop (encode d # map encode ds) = Inr (leaf_text d @ concat (map leaf_text ds))"
      using Cons.prems[of d, OF _ tl] by simp
    then show ?case by simp
  qed
  show ?case using inner Container.prems by simp
qed

lemma rich_loop_encode: "rich_loop (map encode ds) = Inr (concat (map leaf_text ds))"
proof (induction ds)
  case Nil
  show ?case by simp
next
  case (Cons d ds)
  from rich_loop_encode_step[OF Cons.IH, of d] show ?case by simp
qed

lemma richText_try_document:
  "parse (ToString rt) = Some (encode_document ds) \<Longrightarrow>
     richText_try parse rt = Inr (concat (map leaf_text ds))"
  by (simp add: richText_try_def encode_document_def extractTextFromRichText_def rich_loop_encode)

text \<open>The value of \<^verbatim>\<open>text\<close> after the first test.\<close>

lemma extract_direct:
  assumes "get_prop bubble (lit ''text'') = Inr (JStr s)" and "trim s \<noteq> []"
  shows "extractTextFromBubble parse bubble = Inr s"
proof -
  from assms(2) have "s \<noteq> []" by (auto simp: trim_def)
  moreover from assms(1) obtain rt where "get_prop bubble (lit ''richText'') = Inr rt"
    by (cases bubble) auto
  ultimately show ?thesis using assms by (simp add: extractTextFromBubble_def)
qed

lemma extract_fallback:
  assumes "get_prop bubble (lit ''text'') = Inr t" and "get_prop bubble (lit ''richText'') = Inr rt"
    and "\<not> truthy t \<or> (\<exists>s. t = JStr s \<and> trim s = [])"
  shows "extractTextFromBubble parse bubble =
           (if truthy rt
            then (case richText_try parse rt of Inl e \<Rightarrow> Inr [] | Inr text2 \<Rightarrow> Inr text2)
            else Inr [])"
  using assms by (auto simp: extractTextFromBubble_def split: jsval.splits)

text \<open>
  C5, as the code has it. For a payload whose \<^verbatim>\<open>text\<close> is missing, falsy or a string, the
  extraction returns a string and never an exception. A \<^verbatim>\<open>text\<close> that is a string with a code
  unit other than white space is returned as it is. Otherwise a truthy \<^verbatim>\<open>richText\<close> is
  parsed: a stored document of leaves and containers, nested to any depth, gives the text of
  its leaves from left to right; a text that does not parse, a document without a truthy
  \<^verbatim>\<open>root.children\<close> and any exception while the document is read give the empty string.
  (As stated the claim fails: a \<^verbatim>\<open>text\<close> of white space is not returned, and a truthy \<^verbatim>\<open>text\<close>
  that is not a string throws.)
\<close>

theorem extractTextFromBubble_precedence:
  assumes "get_prop bubble (lit ''text'') = Inr t"
    and "get_prop bubble (lit ''richText'') = Inr rt"
    and "\<not> truthy t \<or> (\<exists>s. t = JStr s)"
  shows "(\<exists>out. extractTextFromBubble parse bubble = Inr out)
    \<and> (\<forall>s. t = JStr s \<and> trim s \<noteq> [] \<longrightarrow> extractTextFromBubble parse bubble = Inr s)
    \<and> (\<not> truthy t \<or> (\<exists>s. t = JStr s \<and> trim s = []) \<longrightarrow>
         (\<not> truthy rt \<longrightarrow> extractTextFromBubble parse bubble = Inr [])
       \<and> (truthy rt \<and> parse (ToString rt) = None \<longrightarrow> extractTextFromBubble parse bubble = Inr [])
       \<and> (\<forall>ds. truthy rt \<and> parse (ToString rt) = Some (encode_document ds) \<longrightarrow>
             extractTextFromBubble parse bubble = Inr (concat (map leaf_text ds)))
       \<and> (\<forall>out. truthy rt \<and> richText_try parse rt = Inr out \<longrightarrow>
             extractTextFromBubble parse bubble = Inr out)
       \<and> (\<forall>e. truthy rt \<and> richText_try parse rt = Inl e \<longrightarrow>
             extractTextFromBubble parse bubble = Inr [])
       \<and> (\<forall>d root. truthy rt \<and> parse (ToString rt) = Some d
             \<and> get_prop d (lit ''root'') = Inr root
             \<and> (\<not> truthy root
                  \<or> (\<exists>c. get_prop root (lit ''children'') = Inr c \<and> \<not> truthy c)) \<longrightarrow>
             extractTextFromBubble parse bubble = Inr []))"
proof -
  have direct: "\<forall>s. t = JStr s \<and> trim s \<noteq> [] \<longrightarrow> extractTextFromBubble parse bubble = Inr s"
    using extract_direct assms(1) by blast
  have fb: "\<not> truthy t \<or> (\<exists>s. t = JStr s \<and> trim s = []) \<Longrightarrow>
              extractTextFromBubble parse bubble =
                (if truthy rt
                 then (case richText_try parse rt of Inl e \<Rightarrow> Inr [] | Inr text2 \<Rightarrow> Inr text2)
                 else Inr [])"
    using extract_fallback[OF assms(1,2)] by blast
  have total: "\<exists>out. extractTextFromBubble parse bubble = Inr out"
  proof (cases "\<exists>s. t = JStr s \<and> trim s \<noteq> []")
    case True
    with direct show ?thesis by blast
  next
    case False
    with assms(3) have "\<not> truthy t \<or> (\<exists>s. t = JStr s \<and> trim s = [])" by blast
    from fb[OF this] show ?thesis by (simp split: sum.splits)
  qed
  have falls: "\<not> truthy t \<or> (\<exists>s. t = JStr s \<and> trim s = []) \<longrightarrow>
         (\<not> truthy rt \<longrightarrow> extractTextFromBubble parse bubble = Inr [])
       \<and> (truthy rt \<and> parse (ToString rt) = None \<longrightarrow> extractTextFromBubble parse bubble = Inr [])
       \<and> (\<forall>ds. truthy rt \<and> parse (ToString rt) = Some (encode_document ds) \<longrightarrow>
             extractTextFromBubble parse bubble = Inr (concat (map leaf_text ds)))
       \<and> (\<forall>out. truthy rt \<and> richText_try parse rt = Inr out \<longrightarrow>
             extractTextFromBubble parse bubble = Inr out)
       \<and> (\<forall>e. truthy rt \<and> richText_try parse rt = Inl e \<longrightarrow>
             extractTextFromBubble parse bubble = Inr [])
       \<and> (\<forall>d root. truthy rt \<and> parse (ToString rt) = Some d
             \<and> get_prop d (lit ''root'') = Inr root
             \<and> (\<not> truthy root
                  \<or> (\<exists>c. get_prop root (lit ''children'') = Inr c \<and> \<not> truthy c)) \<longrightarrow>
             extractTextFromBubble parse bubble = Inr [])"
  proof
    assume a: "\<not> truthy t \<or> (\<exists>s. t = JStr s \<and> trim s = [])"
    note eq = fb[OF a]
    have 1: "\<not> truthy rt \<longrightarrow> extractTextFromBubble parse bubble = Inr []"
      using eq by simp
    have 2: "truthy rt \<and> parse (ToString rt) = None \<longrightarrow> extractTextFromBubble parse bubble = Inr []"
      using eq by (simp add: richText_try_def)
    have 3: "\<forall>ds. truthy rt \<and> parse (ToString rt) = Some (encode_document ds) \<longrightarrow>
             extractTextFromBubble parse bubble = Inr (concat (map leaf_text ds))"
      using eq richText_try_document[of parse rt] by simp
    have 4: "\<forall>out. truthy rt \<and> richText_try parse rt = Inr out \<longrightarrow>
             extractTextFromBubble parse bubble = Inr out"
      using eq by simp
    have 5: "\<forall>e. truthy rt \<and> richText_try parse rt = Inl e \<longrightarrow>
             extractTextFromBubble parse bubble = Inr []"
      using eq by simp
    have 6: "\<forall>d root. truthy rt \<and> parse (ToString rt) = Some d
             \<and> get_prop d (lit ''root'') = Inr root
             \<and> (\<not> truthy root
                  \<or> (\<exists>c. get_prop root (lit ''children'') = Inr c \<and> \<not> truthy c)) \<longrightarrow>
             extractTextFromBubble parse bubble = Inr []"
      using eq by (auto simp: richText_try_def)
    from 1 2 3 4 5 6 show "(\<not> truthy rt \<longrightarrow> extractTextFromBubble parse bubble = Inr [])
       \<and> (truthy rt \<and> parse (ToString rt) = None \<longrightarrow> extractTextFromBubble parse bubble = Inr [])
       \<and> (\<forall>ds. truthy rt \<and> parse (ToString rt) = Some (encode_document ds) \<longrightarrow>
             extractTextFromBubble parse bubble = Inr (concat (map leaf_text ds)))
       \<and> (\<forall>out. truthy rt \<and> richText_try parse rt = Inr out \<longrightarrow>
             extractTextFromBubble parse bubble = Inr out)
       \<and> (\<forall>e. truthy rt \<and> richText_try parse rt = Inl e \<longrightarrow>
             extractTextFromBubble parse bubble = Inr [])
       \<and> (\<forall>d root. truthy rt \<and> parse (ToString rt) = Some d
             \<and> get_prop d (lit ''root'') = Inr root
             \<and> (\<not> truthy root
                  \<or> (\<exists>c. get_prop root (lit ''children'') = Inr c \<and> \<not> truthy c)) \<longrightarrow>
             extractTextFromBubble parse bubble = Inr [])"
      by blast
  qed
  from total direct falls show ?thesis by blast
qed

theorem extractTextFromBubble_precedence_witness:
  "get_prop (JObj [(lit ''text'', JStr []), (lit ''richText'', JStr sample_rich_json)])
       (lit ''text'') = Inr (JStr [])
   \<and> get_prop (JObj [(lit ''text'', JStr []), (lit ''richText'', JStr sample_rich_json)])
       (lit ''richText'') = Inr (JStr sample_rich_json)
   \<and> \<not> truthy (JStr [])
   \<and> truthy (JStr sample_rich_json)
   \<and> sample_parse (ToString (JStr sample_rich_json)) = Some (encode_document sample_richdoc)
   \<and> extractTextFromBubble sample_parse
        (JObj [(lit ''text'', JStr []), (lit ''richText'', JStr sample_rich_json)])
       = Inr (lit ''ABC'')
   \<and> trim (lit '' Fix the bug '') \<noteq> []
   \<and> extractTextFromBubble sample_parse
        (JObj [(lit ''text'', JStr (lit '' Fix the bug '')),
               (lit ''richText'', JStr sample_rich_json)])
       = Inr (lit '' Fix the bug '')
   \<and> trim [160, 8232, 65279] = []
   \<and> extractTextFromBubble sample_parse
        (JObj [(lit ''text'', JStr [160, 8232, 65279]), (lit ''richText'', JStr sample_rich_json)])
       = Inr (lit ''ABC'')
   \<and> sample_parse (ToString (JStr (lit ''{not json''))) = None
   \<and> extractTextFromBubble sample_parse (JObj [(lit ''richText'', JStr (lit ''{not json''))])
       = Inr []
   \<and> extractTextFromBubble sample_parse (JObj [(lit ''text'', JNull)]) = Inr []"
proof -
  let ?b = "JObj [(lit ''text'', JStr []), (lit ''richText'', JStr sample_rich_json)]"
  have h1: "get_prop ?b (lit ''text'') = Inr (JStr [])" by simp
  have h2: "get_prop ?b (lit ''richText'') = Inr (JStr sample_rich_json)" by simp
  have h3: "\<not> truthy (JStr []) \<or> (\<exists>s. JStr [] = JStr s)" by simp
  have t: "truthy (JStr sample_rich_json)" by (simp add: sample_rich_json_def)
  have p: "sample_parse (ToString (JStr sample_rich_json)) = Some (encode_document sample_richdoc)"
    by (simp add: sample_parse_def sample_rich_json_def sample_bubble_json_def)
  have l: "concat (map leaf_text sample_richdoc) = lit ''ABC''"
    by (simp add: sample_richdoc_def lit_def)
  from extractTextFromBubble_precedence[OF h1 h2 h3, of sample_parse] t p l
  have rich: "extractTextFromBubble sample_parse ?b = Inr (lit ''ABC'')" by simp
  let ?d = "JObj [(lit ''text'', JStr (lit '' Fix the bug '')),
                  (lit ''richText'', JStr sample_rich_json)]"
  have d1: "get_prop ?d (lit ''text'') = Inr (JStr (lit '' Fix the bug ''))" by simp
  have d2: "get_prop ?d (lit ''richText'') = Inr (JStr sample_rich_json)" by simp
  have d3: "\<not> truthy (JStr (lit '' Fix the bug ''))
              \<or> (\<exists>s. JStr (lit '' Fix the bug '') = JStr s)" by simp
  have d4: "trim (lit '' Fix the bug '') \<noteq> []" by code_simp
  from extractTextFromBubble_precedence[OF d1 d2 d3, of sample_parse] d4
  have direct: "extractTextFromBubble sample_parse ?d = Inr (lit '' Fix the bug '')" by simp
  let ?w = "JObj [(lit ''text'', JStr [160, 8232, 65279]), (lit ''richText'', JStr sample_rich_json)]"
  have w1: "get_prop ?w (lit ''text'') = Inr (JStr [160, 8232, 65279])" by simp
  have w2: "get_prop ?w (lit ''richText'') = Inr (JStr sample_rich_json)" by simp
  have w3: "\<not> truthy (JStr [160, 8232, 65279]) \<or> (\<exists>s. JStr [160, 8232, 65279] = JStr s)" by simp
  have w4: "trim [160, 8232, 65279] = []" by code_simp
  from extractTextFromBubble_precedence[OF w1 w2 w3, of sample_parse] w4 t p l
  have white: "extractTextFromBubble sample_parse ?w = Inr (lit ''ABC'')" by simp
  let ?f = "JObj [(lit ''richText'', JStr (lit ''{not json''))]"
  have f1: "get_prop ?f (lit ''text'') = Inr JUndefined" by simp
  have f2: "get_prop ?f (lit ''richText'') = Inr (JStr (lit ''{not json''))" by simp
  have f3: "\<not> truthy JUndefined \<or> (\<exists>s. JUndefined = JStr s)" by simp
  have f4: "sample_parse (ToString (JStr (lit ''{not json''))) = None"
    by code_simp
  from extractTextFromBubble_precedence[OF f1 f2 f3, of sample_parse] f4
  have failed: "extractTextFromBubble sample_parse ?f = Inr []" by simp
  let ?n = "JObj [(lit ''text'', JNull)]"
  have n1: "get_prop ?n (lit ''text'') = Inr JNull" by simp
  have n2: "get_prop ?n (lit ''richText'') = Inr JUndefined" by simp
  have n3: "\<not> truthy JNull \<or> (\<exists>s. JNull = JStr s)" by simp
  from extractTextFromBubble_precedence[OF n1 n2 n3, of sample_parse]
  have none: "extractTextFromBubble sample_parse ?n = Inr []" by simp
  from h1 h2 t p rich d4 direct w4 white f4 failed none show ?thesis by simp
qed

theorem extractTextFromBubble_counterexample:
  "extractTextFromBubble sample_parse (JObj [(lit ''text'', JStr (lit ''  ''))]) = Inr []
   \<and> extractTextFromBubble sample_parse (JObj [(lit ''text'', JStr (lit ''  ''))])
       \<noteq> Inr (lit ''  '')
   \<and> extractTextFromBubble sample_parse (JObj [(lit ''text'', JNum 5)]) = Inl TypeError"
  by code_simp

subsection \<open>Snippets\<close>



lemma indexOf_from_absent: "\<not> str_includes s q \<Longrightarrow> indexOf_from k s q = - 1"
  by (induction s arbitrary: k) auto




subsection \<open>Duplicates\<close>

lemma findIndex_from_append:
  "findIndex_from k p (pre @ x # xs) =
     (if \<exists>y\<in>set pre. p y then findIndex_from k p pre
      else if p x then int (k + length pre) else findIndex_from (Suc (k + length pre)) p xs)"
  by (induction pre arbitrary: k) auto

lemma findIndex_from_bound:
  "(\<exists>y\<in>set xs. p y) \<Longrightarrow> findIndex_from k p xs < int (k + length xs)"
proof (induction xs arbitrary: k)
  case Nil
  then show ?case by simp
next
  case (Cons a xs)
  show ?case
  proof (cases "p a")
    case True
    then show ?thesis by simp
  next
    case False
    with Cons.prems have "\<exists>y\<in>set xs. p y" by simp
    from Cons.IH[OF this, of "Suc k"] False show ?thesis by simp
  qed
qed

lemma firstOccurrences_cong:
  "set seen = set seen' \<Longrightarrow> firstOccurrences seen rs = firstOccurrences seen' rs"
proof (induction rs arbitrary: seen seen')
  case Nil
  show ?case by simp
next
  case (Cons r rs)
  have "set (sr_chatId r # seen) = set (sr_chatId r # seen')" using Cons.prems by simp
  from Cons.IH[OF this] Cons.IH[OF Cons.prems] Cons.prems show ?case by simp
qed

lemma unique_suffix:
  "map snd (filter (\<lambda>ir. int (fst ir) = findIndex (\<lambda>r. sr_chatId r = sr_chatId (snd ir)) (pre @ suf))
       (enumerate (length pre) suf))
   = firstOccurrences (map sr_chatId pre) suf"
proof (induction suf arbitrary: pre)
  case Nil
  show ?case by simp
next
  case (Cons x xs)
  have tl: "map snd (filter (\<lambda>ir. int (fst ir) = findIndex (\<lambda>r. sr_chatId r = sr_chatId (snd ir)) (pre @ x # xs))
       (enumerate (Suc (length pre)) xs))
     = firstOccurrences (map sr_chatId (pre @ [x])) xs"
    using Cons.IH[of "pre @ [x]"] by simp
  have hd_iff: "int (length pre) = findIndex (\<lambda>r. sr_chatId r = sr_chatId x) (pre @ x # xs)
       \<longleftrightarrow> sr_chatId x \<notin> set (map sr_chatId pre)"
  proof (cases "\<exists>y\<in>set pre. sr_chatId y = sr_chatId x")
    case True
    then have "findIndex_from 0 (\<lambda>r. sr_chatId r = sr_chatId x) pre < int (0 + length pre)"
      by (intro findIndex_from_bound) 
    moreover from True obtain y where "y \<in> set pre" "sr_chatId y = sr_chatId x" by blast
    then have "sr_chatId x \<in> set (map sr_chatId pre)" by (metis image_eqI set_map)
    ultimately show ?thesis using True
      by (simp add: findIndex_def findIndex_from_append)
  next
    case False
    then have "sr_chatId x \<notin> set (map sr_chatId pre)" by force
    with False show ?thesis by (simp add: findIndex_def findIndex_from_append)
  qed
  show ?case
  proof (cases "sr_chatId x \<in> set (map sr_chatId pre)")
    case True
    then have "set (map sr_chatId (pre @ [x])) = set (map sr_chatId pre)" by auto
    from firstOccurrences_cong[OF this] True hd_iff tl show ?thesis by simp
  next
    case False
    have "set (map sr_chatId (pre @ [x])) = set (sr_chatId x # map sr_chatId pre)" by auto
    from firstOccurrences_cong[OF this] False hd_iff tl show ?thesis by simp
  qed
qed

lemma uniqueResults_firstOccurrences: "uniqueResults rs = firstOccurrences [] rs"
  using unique_suffix[of "[]" rs] by (simp add: uniqueResults_def)

lemma firstOccurrences_ids:
  "set (map sr_chatId (firstOccurrences seen rs)) = set (map sr_chatId rs) - set seen"
  by (induction rs arbitrary: seen) auto

lemma firstOccurrences_distinct: "distinct (map sr_chatId (firstOccurrences seen rs))"
  by (induction rs arbitrary: seen) (auto simp: firstOccurrences_ids simp del: set_map)

lemma firstOccurrences_subset: "set (firstOccurrences seen rs) \<subseteq> set rs"
  by (induction rs arbitrary: seen) auto

lemma firstOccurrences_first:
  "r \<in> set (firstOccurrences seen rs) \<Longrightarrow>
     List.find (\<lambda>r'. sr_chatId r' = sr_chatId r) rs = Some r"
proof (induction rs arbitrary: seen)
  case Nil
  then show ?case by simp
next
  case (Cons x xs)
  show ?case
  proof (cases "sr_chatId x \<in> set seen")
    case True
    with Cons.prems have m: "r \<in> set (firstOccurrences seen xs)" by simp
    then have "sr_chatId r \<in> set (map sr_chatId (firstOccurrences seen xs))" by simp
    then have "sr_chatId r \<notin> set seen" unfolding firstOccurrences_ids by simp
    with True have "sr_chatId x \<noteq> sr_chatId r" by auto
    with Cons.IH[OF m] show ?thesis by simp
  next
    case False
    with Cons.prems have "r = x \<or> r \<in> set (firstOccurrences (sr_chatId x # seen) xs)" by simp
    then show ?thesis
    proof
      assume "r = x" then show ?thesis by simp
    next
      assume m: "r \<in> set (firstOccurrences (sr_chatId x # seen) xs)"
      then have "sr_chatId r \<in> set (map sr_chatId (firstOccurrences (sr_chatId x # seen) xs))" by simp
      then have "sr_chatId r \<noteq> sr_chatId x" unfolding firstOccurrences_ids by simp
      with Cons.IH[OF m] show ?thesis by simp
    qed
  qed
qed

lemma mset_insertSorted: "mset (insertSorted cmp x ys) = add_mset x (mset ys)"
  by (induction ys) auto

lemma mset_foldl_insert:
  "mset (foldl (\<lambda>acc x. insertSorted cmp x acc) acc xs) = mset acc + mset xs"
  by (induction xs arbitrary: acc) (auto simp: mset_insertSorted)

lemma mset_sortBy: "mset (sortBy cmp xs) = mset xs"
  by (simp add: sortBy_def mset_foldl_insert)

lemma set_sortBy: "set (sortBy cmp xs) = set xs"
  using mset_sortBy[of cmp xs] by (metis set_mset_mset)

lemma distinct_map_sortBy: "distinct (map f (sortBy cmp xs)) = distinct (map f xs)"
proof -
  have "mset (map f (sortBy cmp xs)) = mset (map f xs)"
    by (simp add: mset_sortBy)
  then show ?thesis by (rule mset_eq_imp_distinct_iff)
qed

lemma scanGlobalStore_split:
  "\<exists>agent ask. fst (scanGlobalStore lower parse now query type1 es idx store) = agent @ ask
      \<and> (\<forall>r\<in>set agent. sr_type r = Composer)
      \<and> (\<forall>r\<in>set ask. sr_type r = Chat \<and> sr_workspaceId r = Workspace (lit ''global''))"
proof -
  define agent where "agent = filter (\<lambda>r. sr_type r = Composer)
    (fst (scanGlobalStore lower parse now query type1 es idx store))"
  define ask where "ask = filter (\<lambda>r. sr_type r = Chat)
    (fst (scanGlobalStore lower parse now query type1 es idx store))"
  have a: "\<forall>r\<in>set agent. sr_type r = Composer" by (simp add: agent_def)
  have b: "\<forall>r\<in>set ask. sr_type r = Chat \<and> sr_workspaceId r = Workspace (lit ''global'')"
    using scanGlobalStore_chat_results[of _ lower parse now query type1 es idx store]
      searchChatData_attribution[of _ lower now query "Workspace (lit ''global'')" None]
    by (auto simp: ask_def)
  have agentRows:
    "filter (\<lambda>r. sr_type r = Composer)
       (concat (map (searchComposerRow lower parse now query es idx lay bm) rows))
          = concat (map (searchComposerRow lower parse now query es idx lay bm) rows)"
    "filter (\<lambda>r. sr_type r = Chat)
       (concat (map (searchComposerRow lower parse now query es idx lay bm) rows)) = []"
    for lay bm rows
    using searchComposerRow_type[of _ lower parse now query es idx lay bm]
    by (auto simp: filter_empty_conv intro!: filter_True)
  have chatRows:
    "filter (\<lambda>r. sr_type r = Chat) (searchChatData lower now query wid folder d)
       = searchChatData lower now query wid folder d"
    "filter (\<lambda>r. sr_type r = Composer) (searchChatData lower now query wid folder d) = []"
    for wid folder d
    using searchChatData_attribution[of _ lower now query wid folder d]
    by (auto simp: filter_empty_conv intro!: filter_True)
  have "fst (scanGlobalStore lower parse now query type1 es idx store) = agent @ ask"
    unfolding agent_def ask_def scanGlobalStore_def
    by (simp add: agentRows chatRows split: outcome.splits)
  with a b show ?thesis by blast
qed

lemma scanWorkspaces_concat:
  "fst (scanWorkspaces lower now query type1 ws) =
     concat (map (\<lambda>w. case snd w of
                          None \<Rightarrow> []
                        | Some store \<Rightarrow>
                            fst (scanWorkspaceStore lower now query type1 (fst w) store)) ws)"
  by (induction ws) (simp_all split: option.splits)

lemma GET_results:
  assumes "GET lower parse parseDate req w = (Results rs, events)"
  shows "\<exists>query entries idx. req_q req = Some query \<and> query \<noteq> [] \<and> w_readdir w = Some entries
           \<and> projectNameIndex Map.empty (workspacesOf entries) = Inr idx
           \<and> rs = sortBy (compareResults parseDate)
                    (uniqueResults (fst (scanStores lower parse (w_now w) query (typeOf req) idx
                       (map entryOf (workspacesOf entries)) (w_globalStore w))))
           \<and> events = snd (scanStores lower parse (w_now w) query (typeOf req) idx
                       (map entryOf (workspacesOf entries)) (w_globalStore w))"
proof (cases "req_q req")
  case None
  with assms show ?thesis by (simp add: GET_def)
next
  case (Some query)
  note q = this
  show ?thesis
  proof (cases "query = []")
    case True
    with assms q show ?thesis by (simp add: GET_def)
  next
    case False
    show ?thesis
    proof (cases "w_readdir w")
      case None
      with assms q False show ?thesis by (simp add: GET_def)
    next
      case (Some entries)
      note e = this
      show ?thesis
      proof (cases "projectNameIndex Map.empty (workspacesOf entries)")
        case (Inl err)
        with assms q False e show ?thesis by (simp add: GET_def)
      next
        case (Inr idx)
        with assms q False e show ?thesis by (simp add: GET_def Let_def)
      qed
    qed
  qed
qed

text \<open>
  C3. No two entries of the answer share a chat id. The ids of the answer are those of the
  scanned results, and each entry of the answer is the first scanned result with its id,
  where the scanned results are, in this order: the conversations of the unified store
  (type \<open>Composer\<close>), the chat tabs of the unified store (type \<open>Chat\<close>, workspace \<^verbatim>\<open>global\<close>),
  and the results of the workspace stores in the order of the workspace directory.
\<close>

theorem results_unique_by_chatId:
  assumes "GET lower parse parseDate req w = (Results rs, events)"
  shows "distinct (map sr_chatId rs)
    \<and> (\<exists>query entries idx scanned agent ask.
          req_q req = Some query \<and> w_readdir w = Some entries
        \<and> projectNameIndex Map.empty (workspacesOf entries) = Inr idx
        \<and> scanned = fst (scanStores lower parse (w_now w) query (typeOf req) idx
                           (map entryOf (workspacesOf entries)) (w_globalStore w))
        \<and> set (map sr_chatId rs) = set (map sr_chatId scanned)
        \<and> (\<forall>r\<in>set rs. List.find (\<lambda>r'. sr_chatId r' = sr_chatId r) scanned = Some r)
        \<and> scanned = agent @ ask
             @ concat (map (\<lambda>ws. case snd ws of
                                   None \<Rightarrow> []
                                 | Some store \<Rightarrow>
                                     fst (scanWorkspaceStore lower (w_now w) query (typeOf req)
                                            (fst ws) store))
                         (map entryOf (workspacesOf entries)))
        \<and> (\<forall>r\<in>set agent. sr_type r = Composer)
        \<and> (\<forall>r\<in>set ask. sr_type r = Chat \<and> sr_workspaceId r = Workspace (lit ''global'')))"
proof -
  from GET_results[OF assms] obtain query entries idx where
    q: "req_q req = Some query" and e: "w_readdir w = Some entries"
    and i: "projectNameIndex Map.empty (workspacesOf entries) = Inr idx"
    and rs: "rs = sortBy (compareResults parseDate)
                    (uniqueResults (fst (scanStores lower parse (w_now w) query (typeOf req) idx
                       (map entryOf (workspacesOf entries)) (w_globalStore w))))"
    by blast
  define scanned where "scanned = fst (scanStores lower parse (w_now w) query (typeOf req) idx
                       (map entryOf (workspacesOf entries)) (w_globalStore w))"
  have rs': "rs = sortBy (compareResults parseDate) (firstOccurrences [] scanned)"
    using rs by (simp add: scanned_def uniqueResults_firstOccurrences)
  have d: "distinct (map sr_chatId rs)"
    unfolding rs' distinct_map_sortBy by (rule firstOccurrences_distinct)
  have "mset (map sr_chatId rs) = mset (map sr_chatId (firstOccurrences [] scanned))"
    unfolding rs' by (simp add: mset_sortBy)
  then have "set (map sr_chatId rs) = set (map sr_chatId (firstOccurrences [] scanned))"
    by (rule mset_eq_setD)
  then have ids: "set (map sr_chatId rs) = set (map sr_chatId scanned)"
    unfolding firstOccurrences_ids by simp
  have first: "\<forall>r\<in>set rs. List.find (\<lambda>r'. sr_chatId r' = sr_chatId r) scanned = Some r"
    unfolding rs' set_sortBy using firstOccurrences_first by blast
  obtain agent ask where
    g: "(case w_globalStore w of
           None \<Rightarrow> []
         | Some store \<Rightarrow> fst (scanGlobalStore lower parse (w_now w) query (typeOf req)
                               (map fst (map entryOf (workspacesOf entries))) idx store))
          = agent @ ask"
    and a: "\<forall>r\<in>set agent. sr_type r = Composer"
    and b: "\<forall>r\<in>set ask. sr_type r = Chat \<and> sr_workspaceId r = Workspace (lit ''global'')"
  proof (cases "w_globalStore w")
    case None
    show ?thesis by (rule that[of "[]" "[]"]) (simp_all add: None)
  next
    case (Some store)
    from scanGlobalStore_split[of lower parse "w_now w" query "typeOf req"
        "map fst (map entryOf (workspacesOf entries))" idx store]
    obtain agent ask where "fst (scanGlobalStore lower parse (w_now w) query (typeOf req)
                               (map fst (map entryOf (workspacesOf entries))) idx store)
                             = agent @ ask"
      "\<forall>r\<in>set agent. sr_type r = Composer"
      "\<forall>r\<in>set ask. sr_type r = Chat \<and> sr_workspaceId r = Workspace (lit ''global'')"
      by blast
    then show ?thesis using that[of agent ask] by (simp add: Some)
  qed
  have order: "scanned = agent @ ask
             @ concat (map (\<lambda>ws. case snd ws of
                                   None \<Rightarrow> []
                                 | Some store \<Rightarrow>
                                     fst (scanWorkspaceStore lower (w_now w) query (typeOf req)
                                            (fst ws) store))
                         (map entryOf (workspacesOf entries)))"
    using g unfolding scanned_def scanStores_def Let_def
    by (cases "w_globalStore w") (simp_all add: scanWorkspaces_concat)
  from d q e i ids first order a b scanned_def show ?thesis by blast
qed

theorem results_unique_by_chatId_witness:
  "GET sample_lower sample_parse sample_dates
       \<lparr> req_q = Some (lit ''refactor''), req_type = None \<rparr> sample_world
     = (Results
          [\<lparr> sr_workspaceId = Workspace (lit ''global''), sr_workspaceFolder = None,
             sr_chatId = Some (lit ''tab-global-1''), sr_chatTitle = lit ''Refactor Auth Module'',
             sr_timestamp = TNum 1600000000000, sr_matchingText = lit ''Refactor Auth Module'',
             sr_type = Chat \<rparr>,
           \<lparr> sr_workspaceId = Workspace (lit ''ws1''),
             sr_workspaceFolder = Some (lit ''file:///home/u/alpha''),
             sr_chatId = Some (lit ''c1''), sr_chatTitle = lit ''Refactor auth module'',
             sr_timestamp = TNum 1500000000000, sr_matchingText = lit ''Refactor auth module'',
             sr_type = Composer \<rparr>],
        [Opened GlobalStore, Closed GlobalStore,
         Opened (WorkspaceStore (lit ''ws1'')), Closed (WorkspaceStore (lit ''ws1''))])
   \<and> map sr_chatId
        (fst (scanStores sample_lower sample_parse (lit ''2024-01-01T00:00:00.000Z'')
                (lit ''refactor'') (lit ''all'') sample_index
                [(\<lparr> we_name = lit ''ws1'', we_folder = lit ''file:///home/u/alpha'' \<rparr>,
                  Some sample_legacy_store)]
                (Some sample_global_store)))
       = [Some (lit ''c1''), Some (lit ''tab-global-1''), Some (lit ''c1'')]
   \<and> distinct [Some (lit ''tab-global-1''), Some (lit ''c1'')]"
proof -
  have g: "GET sample_lower sample_parse sample_dates
       \<lparr> req_q = Some (lit ''refactor''), req_type = None \<rparr> sample_world
     = (Results
          [\<lparr> sr_workspaceId = Workspace (lit ''global''), sr_workspaceFolder = None,
             sr_chatId = Some (lit ''tab-global-1''), sr_chatTitle = lit ''Refactor Auth Module'',
             sr_timestamp = TNum 1600000000000, sr_matchingText = lit ''Refactor Auth Module'',
             sr_type = Chat \<rparr>,
           \<lparr> sr_workspaceId = Workspace (lit ''ws1''),
             sr_workspaceFolder = Some (lit ''file:///home/u/alpha''),
             sr_chatId = Some (lit ''c1''), sr_chatTitle = lit ''Refactor auth module'',
             sr_timestamp = TNum 1500000000000, sr_matchingText = lit ''Refactor auth module'',
             sr_type = Composer \<rparr>],
        [Opened GlobalStore, Closed GlobalStore,
         Opened (WorkspaceStore (lit ''ws1'')), Closed (WorkspaceStore (lit ''ws1''))])"
    by code_simp
  have s: "map sr_chatId
        (fst (scanStores sample_lower sample_parse (lit ''2024-01-01T00:00:00.000Z'')
                (lit ''refactor'') (lit ''all'') sample_index
                [(\<lparr> we_name = lit ''ws1'', we_folder = lit ''file:///home/u/alpha'' \<rparr>,
                  Some sample_legacy_store)]
                (Some sample_global_store)))
       = [Some (lit ''c1''), Some (lit ''tab-global-1''), Some (lit ''c1'')]"
    by code_simp
  from results_unique_by_chatId[OF g]
  have "distinct [Some (lit ''tab-global-1''), Some (lit ''c1'')]"
    by simp
  with g s show ?thesis by simp
qed

subsection \<open>Order\<close>

lemma timeNotBefore_trans:
  "timeNotBefore pd a b \<Longrightarrow> timeNotBefore pd b c \<Longrightarrow> timeNotBefore pd a c"
  by (auto simp: timeNotBefore_def split: option.splits)

lemma compare_dated:
  assumes "dated pd x" and "dated pd y"
  shows "(case compareResults pd x y of None \<Rightarrow> False | Some d \<Rightarrow> d < 0) \<longleftrightarrow> \<not> timeNotBefore pd y x"
    and "timeNotBefore pd x y \<or> timeNotBefore pd y x"
  using assms by (auto simp: dated_def compareResults_def timeNotBefore_def split: option.splits)

lemma set_insertSorted: "set (insertSorted cmp x ys) = insert x (set ys)"
  using mset_insertSorted[of cmp x ys] by (metis set_mset_add_mset_insert set_mset_mset)

lemma insertSorted_sorted:
  assumes "dated pd x" and "\<forall>y\<in>set ys. dated pd y" and "sorted_wrt (timeNotBefore pd) ys"
  shows "sorted_wrt (timeNotBefore pd) (insertSorted (compareResults pd) x ys)"
  using assms
proof (induction ys)
  case Nil
  then show ?case by simp
next
  case (Cons y ys)
  have dy: "dated pd y" using Cons.prems(2) by simp
  show ?case
  proof (cases "case compareResults pd x y of None \<Rightarrow> False | Some d \<Rightarrow> d < 0")
    case True
    with compare_dated[OF Cons.prems(1) dy] have xy: "timeNotBefore pd x y" by blast
    have "\<forall>z\<in>set ys. timeNotBefore pd x z"
      using Cons.prems(3) xy timeNotBefore_trans by auto
    with True xy Cons.prems(3) show ?thesis by simp
  next
    case False
    with compare_dated(1)[OF Cons.prems(1) dy] have yx: "timeNotBefore pd y x" by blast
    have rest: "sorted_wrt (timeNotBefore pd) (insertSorted (compareResults pd) x ys)"
      using Cons.IH Cons.prems by simp
    have "\<forall>z\<in>set (insertSorted (compareResults pd) x ys). timeNotBefore pd y z"
      using yx Cons.prems(3) by (simp add: set_insertSorted)
    with False rest show ?thesis by simp
  qed
qed

lemma foldl_insertSorted_sorted:
  assumes "\<forall>y\<in>set acc. dated pd y" and "\<forall>x\<in>set xs. dated pd x"
    and "sorted_wrt (timeNotBefore pd) acc"
  shows "sorted_wrt (timeNotBefore pd)
           (foldl (\<lambda>acc x. insertSorted (compareResults pd) x acc) acc xs)"
  using assms
proof (induction xs arbitrary: acc)
  case Nil
  then show ?case by simp
next
  case (Cons x xs)
  have s: "sorted_wrt (timeNotBefore pd) (insertSorted (compareResults pd) x acc)"
    using insertSorted_sorted[of pd x acc] Cons.prems by simp
  have d: "\<forall>y\<in>set (insertSorted (compareResults pd) x acc). dated pd y"
    using Cons.prems by (simp add: set_insertSorted)
  from Cons.IH[OF d _ s] Cons.prems(2) show ?case by simp
qed

lemma sortBy_sorted:
  "\<forall>x\<in>set xs. dated pd x \<Longrightarrow> sorted_wrt (timeNotBefore pd) (sortBy (compareResults pd) xs)"
  using foldl_insertSorted_sorted[of "[]" pd xs] by (simp add: sortBy_def)

text \<open>
  C4, as the code has it. When every entry of the answer has a time (its time stamp is a
  number, or a string that is a date), the answer is in non-increasing order of time: each
  entry's time is at least that of every later entry, and so of the next one. (As stated
  the claim fails: a string that is no date has the time \<^verbatim>\<open>NaN\<close>, and no order of the answer
  puts such an entry next to another one in non-increasing order of time.)
\<close>

theorem results_sorted_by_time:
  assumes "GET lower parse parseDate req w = (Results rs, events)"
    and "\<forall>r\<in>set rs. getTime parseDate (sr_timestamp r) \<noteq> None"
  shows "sorted_wrt (timeNotBefore parseDate) rs \<and> successively (timeNotBefore parseDate) rs"
proof -
  from GET_results[OF assms(1)] obtain xs where rs: "rs = sortBy (compareResults parseDate) xs"
    by blast
  have "\<forall>x\<in>set xs. dated parseDate x"
    using assms(2) unfolding rs set_sortBy dated_def by simp
  from sortBy_sorted[OF this] have s: "sorted_wrt (timeNotBefore parseDate) rs"
    unfolding rs .
  then have "successively (timeNotBefore parseDate) rs"
    by (rule successively_if_sorted_wrt)
  with s show ?thesis by simp
qed

theorem results_sorted_by_time_witness:
  "GET sample_lower sample_parse sample_dates
       \<lparr> req_q = Some (lit ''refactor''), req_type = None \<rparr> sample_world
     = (Results
          [\<lparr> sr_workspaceId = Workspace (lit ''global''), sr_workspaceFolder = None,
             sr_chatId = Some (lit ''tab-global-1''), sr_chatTitle = lit ''Refactor Auth Module'',
             sr_timestamp = TNum 1600000000000, sr_matchingText = lit ''Refactor Auth Module'',
             sr_type = Chat \<rparr>,
           \<lparr> sr_workspaceId = Workspace (lit ''ws1''),
             sr_workspaceFolder = Some (lit ''file:///home/u/alpha''),
             sr_chatId = Some (lit ''c1''), sr_chatTitle = lit ''Refactor auth module'',
             sr_timestamp = TNum 1500000000000, sr_matchingText = lit ''Refactor auth module'',
             sr_type = Composer \<rparr>],
        [Opened GlobalStore, Closed GlobalStore,
         Opened (WorkspaceStore (lit ''ws1'')), Closed (WorkspaceStore (lit ''ws1''))])
   \<and> getTime sample_dates (TNum 1600000000000) = Some 1600000000000
   \<and> getTime sample_dates (TNum 1500000000000) = Some 1500000000000
   \<and> successively (timeNotBefore sample_dates)
        [\<lparr> sr_workspaceId = Workspace (lit ''global''), sr_workspaceFolder = None,
             sr_chatId = Some (lit ''tab-global-1''), sr_chatTitle = lit ''Refactor Auth Module'',
             sr_timestamp = TNum 1600000000000, sr_matchingText = lit ''Refactor Auth Module'',
             sr_type = Chat \<rparr>,
           \<lparr> sr_workspaceId = Workspace (lit ''ws1''),
             sr_workspaceFolder = Some (lit ''file:///home/u/alpha''),
             sr_chatId = Some (lit ''c1''), sr_chatTitle = lit ''Refactor auth module'',
             sr_timestamp = TNum 1500000000000, sr_matchingText = lit ''Refactor auth module'',
             sr_type = Composer \<rparr>]"
proof -
  let ?rs = "[\<lparr> sr_workspaceId = Workspace (lit ''global''), sr_workspaceFolder = None,
             sr_chatId = Some (lit ''tab-global-1''), sr_chatTitle = lit ''Refactor Auth Module'',
             sr_timestamp = TNum 1600000000000, sr_matchingText = lit ''Refactor Auth Module'',
             sr_type = Chat \<rparr>,
           \<lparr> sr_workspaceId = Workspace (lit ''ws1''),
             sr_workspaceFolder = Some (lit ''file:///home/u/alpha''),
             sr_chatId = Some (lit ''c1''), sr_chatTitle = lit ''Refactor auth module'',
             sr_timestamp = TNum 1500000000000, sr_matchingText = lit ''Refactor auth module'',
             sr_type = Composer \<rparr>]"
  have g: "GET sample_lower sample_parse sample_dates
       \<lparr> req_q = Some (lit ''refactor''), req_type = None \<rparr> sample_world
     = (Results ?rs,
        [Opened GlobalStore, Closed GlobalStore,
         Opened (WorkspaceStore (lit ''ws1'')), Closed (WorkspaceStore (lit ''ws1''))])"
    by code_simp
  have v: "\<forall>r\<in>set ?rs. getTime sample_dates (sr_timestamp r) \<noteq> None"
    by (simp add: getTime_def)
  from results_sorted_by_time[OF g v] have "successively (timeNotBefore sample_dates) ?rs"
    by blast
  with g show ?thesis by (simp add: getTime_def)
qed

theorem results_sorted_by_time_counterexample:
  "GET sample_lower sample_parse sample_dates
       \<lparr> req_q = Some (lit ''deploy''), req_type = None \<rparr> sample_undated_world
     = (Results
          [\<lparr> sr_workspaceId = Workspace (lit ''ws1''),
             sr_workspaceFolder = Some (lit ''file:///home/u/alpha''),
             sr_chatId = Some (lit ''tab-a''), sr_chatTitle = lit ''Deploy plan'',
             sr_timestamp = TStr (lit ''yesterday''), sr_matchingText = lit ''Deploy plan'',
             sr_type = Chat \<rparr>,
           \<lparr> sr_workspaceId = Workspace (lit ''ws1''),
             sr_workspaceFolder = Some (lit ''file:///home/u/alpha''),
             sr_chatId = Some (lit ''tab-b''), sr_chatTitle = lit ''Deploy checklist'',
             sr_timestamp = TNum 1700000000000, sr_matchingText = lit ''Deploy checklist'',
             sr_type = Chat \<rparr>],
        [Opened (WorkspaceStore (lit ''ws1'')), Closed (WorkspaceStore (lit ''ws1''))])
   \<and> getTime sample_dates (TStr (lit ''yesterday'')) = None
   \<and> \<not> successively (timeNotBefore sample_dates)
        [\<lparr> sr_workspaceId = Workspace (lit ''ws1''),
             sr_workspaceFolder = Some (lit ''file:///home/u/alpha''),
             sr_chatId = Some (lit ''tab-a''), sr_chatTitle = lit ''Deploy plan'',
             sr_timestamp = TStr (lit ''yesterday''), sr_matchingText = lit ''Deploy plan'',
             sr_type = Chat \<rparr>,
           \<lparr> sr_workspaceId = Workspace (lit ''ws1''),
             sr_workspaceFolder = Some (lit ''file:///home/u/alpha''),
             sr_chatId = Some (lit ''tab-b''), sr_chatTitle = lit ''Deploy checklist'',
             sr_timestamp = TNum 1700000000000, sr_matchingText = lit ''Deploy checklist'',
             sr_type = Chat \<rparr>]
   \<and> \<not> successively (timeNotBefore sample_dates)
        [\<lparr> sr_workspaceId = Workspace (lit ''ws1''),
             sr_workspaceFolder = Some (lit ''file:///home/u/alpha''),
             sr_chatId = Some (lit ''tab-b''), sr_chatTitle = lit ''Deploy checklist'',
             sr_timestamp = TNum 1700000000000, sr_matchingText = lit ''Deploy checklist'',
             sr_type = Chat \<rparr>,
           \<lparr> sr_workspaceId = Workspace (lit ''ws1''),
             sr_workspaceFolder = Some (lit ''file:///home/u/alpha''),
             sr_chatId = Some (lit ''tab-a''), sr_chatTitle = lit ''Deploy plan'',
             sr_timestamp = TStr (lit ''yesterday''), sr_matchingText = lit ''Deploy plan'',
             sr_type = Chat \<rparr>]"
  by code_simp

subsection \<open>Store handles\<close>

lemma scanGlobalStore_events:
  "snd (scanGlobalStore lower parse now query type1 es idx store) =
     (if gs_opens store then [Opened GlobalStore, Closed GlobalStore] else [])"
  by (simp add: scanGlobalStore_def split: outcome.splits)

lemma unified_handle_released:
  "releasedBeforeNext None (snd (scanGlobalStore lower parse now query type1 es idx store))"
  by (simp add: scanGlobalStore_events)

lemma scanWorkspaceStore_events:
  "snd (scanWorkspaceStore lower now query type1 entry store) =
     (if \<not> ls_opens store then []
      else if (wants type1 (lit ''chat'') \<and> ls_chatdata store = Throws)
              \<or> (wants type1 (lit ''composer'') \<and> ls_composerData store = Throws)
      then [Opened (WorkspaceStore (we_name entry))]
      else [Opened (WorkspaceStore (we_name entry)), Closed (WorkspaceStore (we_name entry))])"
  by (simp add: scanWorkspaceStore_def split: outcome.splits)

text \<open>
  C8 does not hold of the workspace stores. In the installation \<open>sample_broken_world\<close> the
  store of the first workspace opens and its first query throws; the \<^verbatim>\<open>catch\<close> of the
  workspace loop logs and goes on, and the next store is opened while that handle is still
  open. The unified store is closed on every path (\<open>unified_handle_released\<close>).
\<close>

theorem legacy_handle_left_open:
  "snd (GET sample_lower sample_parse sample_dates
          \<lparr> req_q = Some (lit ''refactor''), req_type = None \<rparr> sample_broken_world)
     = [Opened GlobalStore, Closed GlobalStore,
        Opened (WorkspaceStore (lit ''ws0'')),
        Opened (WorkspaceStore (lit ''ws1'')), Closed (WorkspaceStore (lit ''ws1''))]
   \<and> \<not> releasedBeforeNext None
         (snd (GET sample_lower sample_parse sample_dates
                 \<lparr> req_q = Some (lit ''refactor''), req_type = None \<rparr> sample_broken_world))"
proof -
  have e: "snd (GET sample_lower sample_parse sample_dates
          \<lparr> req_q = Some (lit ''refactor''), req_type = None \<rparr> sample_broken_world)
     = [Opened GlobalStore, Closed GlobalStore,
        Opened (WorkspaceStore (lit ''ws0'')),
        Opened (WorkspaceStore (lit ''ws1'')), Closed (WorkspaceStore (lit ''ws1''))]"
    by code_simp
  have "\<not> releasedBeforeNext None
         [Opened GlobalStore, Closed GlobalStore,
          Opened (WorkspaceStore (lit ''ws0'')),
          Opened (WorkspaceStore (lit ''ws1'')), Closed (WorkspaceStore (lit ''ws1''))]"
    by simp
  with e show ?thesis by simp
qed

subsection \<open>The project resolver\<close>

lemma unresolved_row_excluded:
  assumes "key_part 1 key = Some cid"
    and "determineProjectForConversation cd cid lay idx es bm = Inr None
         \<or> (\<exists>e. determineProjectForConversation cd cid lay idx es bm = Inl e)"
  shows "searchComposerRow lower parse now query es idx lay bm (key, Parsed cd) = []"
  using assms by (auto simp: searchComposerRow_def split: sum.splits option.splits)

lemma searchComposers_attribution:
  "r \<in> set (searchComposers lower now query entry composers) \<Longrightarrow>
     sr_workspaceId r = Workspace (we_name entry) \<and> sr_workspaceFolder r = Some (we_folder entry)"
proof (induction composers)
  case Nil
  then show ?case by simp
next
  case (Cons composer rest)
  show ?case
  proof (cases "matchInline lower query (lc_text composer) (lc_conversation composer)")
    case (Inl e)
    with Cons.prems show ?thesis by simp
  next
    case (Inr m)
    show ?thesis
    proof (cases m)
      case None
      with Inr Cons show ?thesis by simp
    next
      case (Some matchingText)
      with Inr Cons.prems have "r = \<lparr> sr_workspaceId = Workspace (we_name entry),
            sr_workspaceFolder = Some (we_folder entry),
            sr_chatId = Some (lc_composerId composer),
            sr_chatTitle = legacyComposerTitle composer,
            sr_timestamp =
              ts_or (lc_lastUpdatedAt composer) (ts_or (lc_createdAt composer) (TStr now)),
            sr_matchingText = matchingText,
            sr_type = Composer \<rparr> \<or> r \<in> set (searchComposers lower now query entry rest)"
        by simp
      then show ?thesis
      proof
        assume "r = \<lparr> sr_workspaceId = Workspace (we_name entry),
            sr_workspaceFolder = Some (we_folder entry),
            sr_chatId = Some (lc_composerId composer),
            sr_chatTitle = legacyComposerTitle composer,
            sr_timestamp =
              ts_or (lc_lastUpdatedAt composer) (ts_or (lc_createdAt composer) (TStr now)),
            sr_matchingText = matchingText,
            sr_type = Composer \<rparr>"
        then show ?thesis by simp
      next
        assume "r \<in> set (searchComposers lower now query entry rest)"
        then show ?thesis by (rule Cons.IH)
      qed
    qed
  qed
qed

lemma searchLegacyComposerData_attribution:
  "r \<in> set (searchLegacyComposerData lower now query entry d) \<Longrightarrow>
     sr_workspaceId r = Workspace (we_name entry) \<and> sr_workspaceFolder r = Some (we_folder entry)"
  by (auto simp: searchLegacyComposerData_def split: option.splits parsed.splits
      dest: searchComposers_attribution)

lemma scanWorkspaceStore_attribution:
  assumes "r \<in> set (fst (scanWorkspaceStore lower now query type1 entry store))"
  shows "sr_workspaceId r = Workspace (we_name entry)
         \<and> sr_workspaceFolder r = Some (we_folder entry)"
proof -
  have "(\<exists>d. r \<in> set (searchChatData lower now query (Workspace (we_name entry))
                       (Some (we_folder entry)) d))
        \<or> (\<exists>d. r \<in> set (searchLegacyComposerData lower now query entry d))"
    using assms unfolding scanWorkspaceStore_def
    by (auto split: if_splits outcome.splits)
  then show ?thesis
    using searchChatData_attribution searchLegacyComposerData_attribution by blast
qed

text \<open>
  C2 does not hold of the first stage. The index of folder names is keyed by the last
  segment of each workspace folder (line 175), and the first stage looks the recorded root
  path up in it as a whole (line 78), not its last segment. In the installation
  \<open>sample_layout_world\<close> the workspace \<^verbatim>\<open>ws1\<close> has the folder \<^verbatim>\<open>file:///home/u/alpha\<close> and the
  context row of the conversation \<^verbatim>\<open>c7\<close> records the root path \<^verbatim>\<open>/home/u/alpha\<close>: the index has
  \<^verbatim>\<open>alpha\<close> and not \<^verbatim>\<open>/home/u/alpha\<close>, the resolver gives nothing, and the conversation, whose
  title contains the query, is left out of the answer. Only a root path that is a bare
  folder name is found.
\<close>

theorem recorded_root_path_is_not_found:
  "projectLayoutsMapOf sample_parse Map.empty
       [(lit ''messageRequestContext:c7:r1'', sample_context_json)] (lit ''c7'')
     = Some [lit ''/home/u/alpha'']
   \<and> (case projectNameIndex Map.empty
              [\<lparr> fw_name = lit ''ws1'', fw_folder = JStr (lit ''file:///home/u/alpha''),
                 fw_store = None \<rparr>] of
         Inl e \<Rightarrow> False
       | Inr projectNameToWorkspaceId \<Rightarrow>
           property projectNameToWorkspaceId (folderName (lit ''/home/u/alpha''))
             = Own (lit ''ws1'')
           \<and> property projectNameToWorkspaceId (lit ''/home/u/alpha'') = Missing
           \<and> determineProjectForConversation sample_orphan (lit ''c7'')
                [lit ''c7'' \<mapsto> [lit ''/home/u/alpha'']] projectNameToWorkspaceId
                sample_entries emptyBubbleMap = Inr None)
   \<and> matchComposer sample_lower sample_parse emptyBubbleMap (lit ''orphan'') sample_orphan
        (lit ''c7'') = Inr (Some (lit ''Orphan notes''))
   \<and> GET sample_lower sample_parse sample_dates
        \<lparr> req_q = Some (lit ''orphan''), req_type = None \<rparr> sample_layout_world
     = (Results [], [Opened GlobalStore, Closed GlobalStore])
   \<and> determineProjectForConversation sample_orphan (lit ''c7'')
        [lit ''c7'' \<mapsto> [lit ''alpha'']] sample_index sample_entries emptyBubbleMap
     = Inr (Some (Workspace (lit ''ws1'')))"
  by code_simp

subsection \<open>Matching\<close>















subsection \<open>Failures below the request\<close>
















end
